theory Spec2Isabelle
  imports Complex_Main
begin

section \<open>JavaScript numbers\<close>

text \<open>
  The module \<open>src/dateUtils.ts\<close> computes with JavaScript numbers and \<open>Date\<close> objects.
  A number is \<open>NaN\<close>, one of the two infinities, or finite. A finite number is
  \<open>Finite n\<close> when it is the whole number \<open>n\<close>, and \<open>Fraction q\<close> with a rational \<open>q\<close>
  that is not whole otherwise. Time values, years and day counts are whole numbers; an
  amount passed to \<open>add\<close> may have a fractional part. Sums and products of finite numbers
  are exact: the rounding of floating-point arithmetic is not modelled.
\<close>

datatype number = NaN | Infinity | NegInfinity | Finite int | Fraction rat

definition number_of_rat :: "rat \<Rightarrow> number" where
  "number_of_rat q = (if of_int \<lfloor>q\<rfloor> = q then Finite \<lfloor>q\<rfloor> else Fraction q)"

text \<open>The whole part of a rational, rounding towards zero.\<close>

definition truncate :: "rat \<Rightarrow> int" where
  "truncate q = (if 0 \<le> q then \<lfloor>q\<rfloor> else \<lceil>q\<rceil>)"

fun isNaN :: "number \<Rightarrow> bool" where
  "isNaN NaN = True"
| "isNaN _ = False"

text \<open>\<open>!amount\<close>: the falsy numbers are zero and \<open>NaN\<close>.\<close>

fun falsy :: "number \<Rightarrow> bool" where
  "falsy NaN = True"
| "falsy (Finite n) = (n = 0)"
| "falsy (Fraction q) = (q = 0)"
| "falsy _ = False"

fun num_neg :: "number \<Rightarrow> number" where
  "num_neg NaN = NaN"
| "num_neg Infinity = NegInfinity"
| "num_neg NegInfinity = Infinity"
| "num_neg (Finite n) = Finite (- n)"
| "num_neg (Fraction q) = Fraction (- q)"

fun num_add :: "number \<Rightarrow> number \<Rightarrow> number" where
  "num_add NaN _ = NaN"
| "num_add _ NaN = NaN"
| "num_add Infinity NegInfinity = NaN"
| "num_add NegInfinity Infinity = NaN"
| "num_add Infinity _ = Infinity"
| "num_add _ Infinity = Infinity"
| "num_add NegInfinity _ = NegInfinity"
| "num_add _ NegInfinity = NegInfinity"
| "num_add (Finite a) (Finite b) = Finite (a + b)"
| "num_add (Finite a) (Fraction q) = number_of_rat (of_int a + q)"
| "num_add (Fraction p) (Finite b) = number_of_rat (p + of_int b)"
| "num_add (Fraction p) (Fraction q) = number_of_rat (p + q)"

fun num_mul :: "number \<Rightarrow> number \<Rightarrow> number" where
  "num_mul NaN _ = NaN"
| "num_mul _ NaN = NaN"
| "num_mul (Finite a) (Finite b) = Finite (a * b)"
| "num_mul (Finite a) Infinity = (if a = 0 then NaN else if 0 < a then Infinity else NegInfinity)"
| "num_mul (Finite a) NegInfinity = (if a = 0 then NaN else if 0 < a then NegInfinity else Infinity)"
| "num_mul Infinity (Finite b) = (if b = 0 then NaN else if 0 < b then Infinity else NegInfinity)"
| "num_mul NegInfinity (Finite b) = (if b = 0 then NaN else if 0 < b then NegInfinity else Infinity)"
| "num_mul Infinity Infinity = Infinity"
| "num_mul NegInfinity NegInfinity = Infinity"
| "num_mul Infinity NegInfinity = NegInfinity"
| "num_mul NegInfinity Infinity = NegInfinity"
| "num_mul (Finite a) (Fraction q) = number_of_rat (of_int a * q)"
| "num_mul (Fraction p) (Finite b) = number_of_rat (p * of_int b)"
| "num_mul (Fraction p) (Fraction q) = number_of_rat (p * q)"
| "num_mul (Fraction p) Infinity = (if p = 0 then NaN else if 0 < p then Infinity else NegInfinity)"
| "num_mul (Fraction p) NegInfinity = (if p = 0 then NaN else if 0 < p then NegInfinity else Infinity)"
| "num_mul Infinity (Fraction q) = (if q = 0 then NaN else if 0 < q then Infinity else NegInfinity)"
| "num_mul NegInfinity (Fraction q) = (if q = 0 then NaN else if 0 < q then NegInfinity else Infinity)"

text \<open>\<open>a > b\<close>, \<open>a < b\<close> and \<open>a >= b\<close>: false as soon as one side is \<open>NaN\<close>.\<close>

fun num_gt :: "number \<Rightarrow> number \<Rightarrow> bool" where
  "num_gt NaN _ = False"
| "num_gt _ NaN = False"
| "num_gt (Finite a) (Finite b) = (b < a)"
| "num_gt Infinity Infinity = False"
| "num_gt Infinity _ = True"
| "num_gt NegInfinity _ = False"
| "num_gt (Finite a) Infinity = False"
| "num_gt (Finite a) NegInfinity = True"
| "num_gt (Finite a) (Fraction q) = (q < of_int a)"
| "num_gt (Fraction p) (Finite b) = (of_int b < p)"
| "num_gt (Fraction p) (Fraction q) = (q < p)"
| "num_gt (Fraction p) Infinity = False"
| "num_gt (Fraction p) NegInfinity = True"

fun num_lt :: "number \<Rightarrow> number \<Rightarrow> bool" where
  "num_lt a b = num_gt b a"

fun num_ge :: "number \<Rightarrow> number \<Rightarrow> bool" where
  "num_ge NaN _ = False"
| "num_ge _ NaN = False"
| "num_ge a b = (a = b \<or> num_gt a b)"

text \<open>\<open>a === b\<close> on numbers: \<open>NaN\<close> is not equal to itself.\<close>

fun num_eq :: "number \<Rightarrow> number \<Rightarrow> bool" where
  "num_eq NaN _ = False"
| "num_eq _ NaN = False"
| "num_eq a b = (a = b)"

section \<open>The time arithmetic of ECMAScript\<close>

text \<open>
  A time value is a number of milliseconds since 1970-01-01T00:00:00Z. The functions
  below are those of the section "Date Objects" of the ECMAScript standard, on whole
  numbers; \<open>div\<close> and \<open>mod\<close> on \<open>int\<close> round towards minus infinity, as the standard's
  \<open>floor\<close> and \<open>modulo\<close> do.
\<close>

definition msPerDay :: int where
  "msPerDay = 86400000"

definition msPerHour :: int where
  "msPerHour = 3600000"

definition msPerMinute :: int where
  "msPerMinute = 60000"

definition msPerSecond :: int where
  "msPerSecond = 1000"

text \<open>The largest magnitude of a time value: 100,000,000 days.\<close>

definition maxTime :: int where
  "maxTime = 8640000000000000"

definition Day :: "int \<Rightarrow> int" where
  "Day t = t div msPerDay"

definition TimeWithinDay :: "int \<Rightarrow> int" where
  "TimeWithinDay t = t mod msPerDay"

definition DaysInYear :: "int \<Rightarrow> int" where
  "DaysInYear y =
     (if y mod 4 \<noteq> 0 then 365
      else if y mod 100 \<noteq> 0 then 366
      else if y mod 400 \<noteq> 0 then 365
      else 366)"

definition DayFromYear :: "int \<Rightarrow> int" where
  "DayFromYear y =
     365 * (y - 1970) + (y - 1969) div 4 - (y - 1901) div 100 + (y - 1601) div 400"

definition TimeFromYear :: "int \<Rightarrow> int" where
  "TimeFromYear y = msPerDay * DayFromYear y"

text \<open>
  The standard defines \<open>YearFromTime(t)\<close> as the largest \<open>y\<close> with
  \<open>TimeFromYear(y) \<le> t\<close>. It is computed here from the average length of a year
  (146097 days in 400 years), which is off by at most one; lemma \<open>YearFromTime_bounds\<close>
  shows that the result is the year the standard defines.
\<close>

definition YearFromTime :: "int \<Rightarrow> int" where
  "YearFromTime t =
     (let d = Day t; y = 1970 + (400 * d) div 146097
      in if DayFromYear (y + 1) \<le> d then y + 1
         else if DayFromYear y \<le> d then y
         else y - 1)"

definition InLeapYear :: "int \<Rightarrow> int" where
  "InLeapYear t = (if DaysInYear (YearFromTime t) = 366 then 1 else 0)"

definition DayWithinYear :: "int \<Rightarrow> int" where
  "DayWithinYear t = Day t - DayFromYear (YearFromTime t)"

definition MonthFromTime :: "int \<Rightarrow> int" where
  "MonthFromTime t =
     (let d = DayWithinYear t; l = InLeapYear t
      in if d < 31 then 0
         else if d < 59 + l then 1
         else if d < 90 + l then 2
         else if d < 120 + l then 3
         else if d < 151 + l then 4
         else if d < 181 + l then 5
         else if d < 212 + l then 6
         else if d < 243 + l then 7
         else if d < 273 + l then 8
         else if d < 304 + l then 9
         else if d < 334 + l then 10
         else 11)"

definition DateFromTime :: "int \<Rightarrow> int" where
  "DateFromTime t =
     (let d = DayWithinYear t; l = InLeapYear t; m = MonthFromTime t
      in if m = 0 then d + 1
         else if m = 1 then d - 30
         else if m = 2 then d - 58 - l
         else if m = 3 then d - 89 - l
         else if m = 4 then d - 119 - l
         else if m = 5 then d - 150 - l
         else if m = 6 then d - 180 - l
         else if m = 7 then d - 211 - l
         else if m = 8 then d - 242 - l
         else if m = 9 then d - 272 - l
         else if m = 10 then d - 303 - l
         else d - 333 - l)"

text \<open>
  The local time zone is a parameter \<open>tza\<close> of every function that reads it: the
  implementation-defined function \<open>LocalTZA(t, isUTC)\<close> of the standard. \<open>tza t True\<close> is
  the offset of local time from UTC, in milliseconds, at the instant \<open>t\<close>;
  \<open>tza t False\<close> is the offset with which the zone reads the local time \<open>t\<close> (for a local
  time that a transition skips or repeats, the offset before the transition).
\<close>

type_synonym LocalTZA = "int \<Rightarrow> bool \<Rightarrow> int"

definition LocalTime :: "LocalTZA \<Rightarrow> int \<Rightarrow> int" where
  "LocalTime tza t = t + tza t True"

fun UTC :: "LocalTZA \<Rightarrow> number \<Rightarrow> number" where
  "UTC tza (Finite t) = Finite (t - tza t False)"
| "UTC tza _ = NaN"

text \<open>A zone whose offset never changes.\<close>

definition fixedOffset :: "int \<Rightarrow> LocalTZA" where
  "fixedOffset c = (\<lambda>t isUTC. c)"

text \<open>
  \<open>falls_on_its_day tza L\<close>: the zone reads the local time \<open>L\<close> as an instant of the
  calendar day of \<open>L\<close>. It fails when a transition skips the rest of that day.
  \<open>has_day tza D\<close>: the local midnight of day \<open>D\<close> is read as an instant that a \<open>Date\<close>
  can hold and that lies on day \<open>D\<close>. The theorems name with them the local times that
  the zone must not carry to another day.
\<close>

definition falls_on_its_day :: "LocalTZA \<Rightarrow> int \<Rightarrow> bool" where
  "falls_on_its_day tza L = (Day (LocalTime tza (L - tza L False)) = Day L)"

definition has_day :: "LocalTZA \<Rightarrow> int \<Rightarrow> bool" where
  "has_day tza D =
     (\<bar>D * msPerDay - tza (D * msPerDay) False\<bar> \<le> maxTime
      \<and> falls_on_its_day tza (D * msPerDay))"

definition MakeTime :: "int \<Rightarrow> int \<Rightarrow> int \<Rightarrow> int \<Rightarrow> int" where
  "MakeTime hour minute sec ms =
     hour * msPerHour + minute * msPerMinute + sec * msPerSecond + ms"

text \<open>
  \<open>MakeDay\<close> looks for the day on which month \<open>mn\<close> of year \<open>ym\<close> begins; that day is
  \<open>DayFromYear ym\<close> plus the days of the months before \<open>mn\<close>
  (lemma \<open>MonthStart_fields\<close>). It is computed by this arithmetic for every finite year
  and month, as the engines do; a day too far from 1970 is rejected by \<open>TimeClip\<close> once
  the time value is built.
\<close>

definition MonthStart :: "int \<Rightarrow> int \<Rightarrow> int" where
  "MonthStart ym mn =
     (let l = (if DaysInYear ym = 366 then 1 else 0)
      in DayFromYear ym +
         (if mn = 0 then 0
          else if mn = 1 then 31
          else if mn = 2 then 59 + l
          else if mn = 3 then 90 + l
          else if mn = 4 then 120 + l
          else if mn = 5 then 151 + l
          else if mn = 6 then 181 + l
          else if mn = 7 then 212 + l
          else if mn = 8 then 243 + l
          else if mn = 9 then 273 + l
          else if mn = 10 then 304 + l
          else 334 + l))"

text \<open>
  The number of the day \<open>dt\<close> of month \<open>m\<close> (0 to 11) of year \<open>y\<close>, counted from
  1 January 1970, as \<open>MakeDay\<close> computes it (lemma \<open>MakeDay_in_month\<close>).
\<close>

definition dayNumber :: "int \<Rightarrow> int \<Rightarrow> int \<Rightarrow> int" where
  "dayNumber y m dt = MonthStart y m + dt - 1"

text \<open>The number of days of month \<open>mn\<close> of year \<open>ym\<close>; used to state the lemmas.\<close>

definition DaysInMonth :: "int \<Rightarrow> int \<Rightarrow> int" where
  "DaysInMonth ym mn =
     (if mn = 1 then (if DaysInYear ym = 366 then 29 else 28)
      else if mn = 3 \<or> mn = 5 \<or> mn = 8 \<or> mn = 10 then 30
      else 31)"

text \<open>
  The whole part of a finite number (\<open>ToIntegerOrInfinity\<close> of the standard, where the
  number is finite).
\<close>

fun whole :: "number \<Rightarrow> int option" where
  "whole (Finite a) = Some a"
| "whole (Fraction q) = Some (truncate q)"
| "whole _ = None"

fun MakeDay :: "number \<Rightarrow> number \<Rightarrow> number \<Rightarrow> number" where
  "MakeDay year month dt =
     (case (whole year, whole month, whole dt) of
        (Some y, Some m, Some d) \<Rightarrow>
          (let ym = y + m div 12; mn = m mod 12
           in Finite (MonthStart ym mn + d - 1))
      | _ \<Rightarrow> NaN)"

text \<open>\<open>MakeDate\<close> is only applied to whole numbers here.\<close>

fun MakeDate :: "number \<Rightarrow> number \<Rightarrow> number" where
  "MakeDate (Finite day) (Finite time) = Finite (day * msPerDay + time)"
| "MakeDate _ _ = NaN"

fun TimeClip :: "number \<Rightarrow> number" where
  "TimeClip (Finite t) = (if maxTime < \<bar>t\<bar> then NaN else Finite t)"
| "TimeClip (Fraction q) = (if maxTime < \<bar>truncate q\<bar> then NaN else Finite (truncate q))"
| "TimeClip _ = NaN"

section \<open>Date objects\<close>

text \<open>
  A \<open>Date\<close> object holds one time value, \<open>NaN\<close> for an invalid date. Its methods are
  modelled on the value: a getter returns a number, a setter returns the value the
  object holds afterwards.
\<close>

datatype Date = Date number

fun getTime :: "Date \<Rightarrow> number" where
  "getTime (Date tv) = tv"

text \<open>
  The dates a program can build: the time value is \<open>NaN\<close> or an integer of magnitude
  at most \<open>maxTime\<close>, since every constructor and setter ends with \<open>TimeClip\<close>.
\<close>

fun wf_Date :: "Date \<Rightarrow> bool" where
  "wf_Date (Date NaN) = True"
| "wf_Date (Date (Finite t)) = (\<bar>t\<bar> \<le> maxTime)"
| "wf_Date (Date _) = False"

definition valid_Date :: "Date \<Rightarrow> bool" where
  "valid_Date d = (wf_Date d \<and> \<not> isNaN (getTime d))"

text \<open>
  \<open>start_apart tza a b\<close>: if the dates \<open>a\<close> and \<open>b\<close> lie on different local days, the zone
  reads the midnights of those two days as different instants.
\<close>

fun start_apart :: "LocalTZA \<Rightarrow> Date \<Rightarrow> Date \<Rightarrow> bool" where
  "start_apart tza (Date (Finite s)) (Date (Finite t)) =
     (let M = Day (LocalTime tza s) * msPerDay; N = Day (LocalTime tza t) * msPerDay
      in M \<noteq> N \<longrightarrow> M - tza M False \<noteq> N - tza N False)"
| "start_apart tza a b = True"

text \<open>
  \<open>new Date(year, month, date, hours, minutes, seconds, ms)\<close>: a year from 0 to 99
  stands for 1900 + year.
\<close>

fun new_Date :: "LocalTZA \<Rightarrow> number \<Rightarrow> int \<Rightarrow> int \<Rightarrow> int \<Rightarrow> int \<Rightarrow> int \<Rightarrow> int \<Rightarrow> Date" where
  "new_Date tza year month dt hours minutes seconds ms =
     (let yr = (case whole year of
                  Some yi \<Rightarrow> if 0 \<le> yi \<and> yi \<le> 99 then Finite (1900 + yi) else Finite yi
                | None \<Rightarrow> year);
          finalDate = MakeDate (MakeDay yr (Finite month) (Finite dt))
                               (Finite (MakeTime hours minutes seconds ms))
      in Date (TimeClip (UTC tza finalDate)))"

fun getFullYear :: "LocalTZA \<Rightarrow> Date \<Rightarrow> number" where
  "getFullYear tza (Date (Finite t)) = Finite (YearFromTime (LocalTime tza t))"
| "getFullYear tza (Date _) = NaN"

fun getMonth :: "LocalTZA \<Rightarrow> Date \<Rightarrow> number" where
  "getMonth tza (Date (Finite t)) = Finite (MonthFromTime (LocalTime tza t))"
| "getMonth tza (Date _) = NaN"

fun getDate :: "LocalTZA \<Rightarrow> Date \<Rightarrow> number" where
  "getDate tza (Date (Finite t)) = Finite (DateFromTime (LocalTime tza t))"
| "getDate tza (Date _) = NaN"

text \<open>\<open>setDate(dt)\<close>: an invalid date stays invalid.\<close>

fun setDate :: "LocalTZA \<Rightarrow> Date \<Rightarrow> number \<Rightarrow> Date" where
  "setDate tza (Date (Finite tv)) dt =
     (let t = LocalTime tza tv;
          newDate = MakeDate (MakeDay (Finite (YearFromTime t)) (Finite (MonthFromTime t)) dt)
                             (Finite (TimeWithinDay t))
      in Date (TimeClip (UTC tza newDate)))"
| "setDate tza (Date tv) dt = Date NaN"

text \<open>\<open>setMonth(month, dt)\<close>.\<close>

fun setMonth :: "LocalTZA \<Rightarrow> Date \<Rightarrow> number \<Rightarrow> number \<Rightarrow> Date" where
  "setMonth tza (Date (Finite tv)) month dt =
     (let t = LocalTime tza tv;
          newDate = MakeDate (MakeDay (Finite (YearFromTime t)) month dt)
                             (Finite (TimeWithinDay t))
      in Date (TimeClip (UTC tza newDate)))"
| "setMonth tza (Date tv) month dt = Date NaN"

text \<open>\<open>setFullYear(year, month, dt)\<close>: on an invalid date the time of day is 0.\<close>

fun setFullYear :: "LocalTZA \<Rightarrow> Date \<Rightarrow> number \<Rightarrow> number \<Rightarrow> number \<Rightarrow> Date" where
  "setFullYear tza (Date tv) year month dt =
     (let t = (case tv of Finite tv' \<Rightarrow> LocalTime tza tv' | _ \<Rightarrow> 0);
          newDate = MakeDate (MakeDay year month dt) (Finite (TimeWithinDay t))
      in Date (TimeClip (UTC tza newDate)))"

text \<open>\<open>setHours(hour, min, sec, ms)\<close>.\<close>

fun setHours :: "LocalTZA \<Rightarrow> Date \<Rightarrow> int \<Rightarrow> int \<Rightarrow> int \<Rightarrow> int \<Rightarrow> Date" where
  "setHours tza (Date (Finite tv)) hour minute sec ms =
     (let t = LocalTime tza tv;
          date = MakeDate (Finite (Day t)) (Finite (MakeTime hour minute sec ms))
      in Date (TimeClip (UTC tza date)))"
| "setHours tza (Date tv) hour minute sec ms = Date NaN"

section \<open>The store\<close>

text \<open>
  \<open>Date\<close> objects are mutable and passed by reference. Function \<open>add\<close> is modelled
  over a store, a list of the objects allocated so far, in which a reference is an
  index; \<open>new\<close> appends. The other functions of the module only read the dates they
  are given and return a boolean or fresh dates, and are modelled on values.
\<close>

type_synonym heap = "Date list"

type_synonym ref = nat

definition alloc :: "heap \<Rightarrow> Date \<Rightarrow> heap \<times> ref" where
  "alloc h d = (h @ [d], length h)"

section \<open>The functions of date-fns that the module calls\<close>

text \<open>
  The library date-fns is not part of the repository. The functions that
  \<open>src/dateUtils.ts\<close> imports are transcribed here from the library's sources
  (version 4); on whole-number amounts the earlier versions compute the same dates.

  \<open>toDate(date)\<close> clones its argument: \<open>new Date(date)\<close>.
  \<open>constructFrom(date, value)\<close> is \<open>new Date(value)\<close> for a number \<open>value\<close>.
\<close>

definition toDate :: "heap \<Rightarrow> ref \<Rightarrow> heap \<times> ref" where
  "toDate h date = alloc h (Date (getTime (h ! date)))"

definition constructFrom :: "heap \<Rightarrow> ref \<Rightarrow> number \<Rightarrow> heap \<times> ref" where
  "constructFrom h date v = alloc h (Date (TimeClip v))"

text \<open>
  \<^verbatim>\<open>
  export function addDays(date, amount, options) {
    const _date = toDate(date, options?.in);
    if (isNaN(amount)) return constructFrom(options?.in || date, NaN);
    if (!amount) return _date;
    _date.setDate(_date.getDate() + amount);
    return _date;
  }
  \<close>
\<close>

definition addDays :: "LocalTZA \<Rightarrow> heap \<Rightarrow> ref \<Rightarrow> number \<Rightarrow> heap \<times> ref" where
  "addDays tza h date amount =
     (case toDate h date of (h1, d) \<Rightarrow>
        if isNaN amount then constructFrom h1 date NaN
        else if falsy amount then (h1, d)
        else (h1[d := setDate tza (h1 ! d) (num_add (getDate tza (h1 ! d)) amount)], d))"

text \<open>\<open>addWeeks(date, amount)\<close> is \<open>addDays(date, amount * 7)\<close>.\<close>

definition addWeeks :: "LocalTZA \<Rightarrow> heap \<Rightarrow> ref \<Rightarrow> number \<Rightarrow> heap \<times> ref" where
  "addWeeks tza h date amount = addDays tza h date (num_mul amount (Finite 7))"

text \<open>
  \<^verbatim>\<open>
  export function addMonths(date, amount, options) {
    const _date = toDate(date, options?.in);
    if (isNaN(amount)) return constructFrom(options?.in || date, NaN);
    if (!amount) return _date;
    const dayOfMonth = _date.getDate();
    const endOfDesiredMonth = constructFrom(options?.in || date, _date.getTime());
    endOfDesiredMonth.setMonth(_date.getMonth() + amount + 1, 0);
    const daysInMonth = endOfDesiredMonth.getDate();
    if (dayOfMonth >= daysInMonth) {
      return endOfDesiredMonth;
    } else {
      _date.setFullYear(
        endOfDesiredMonth.getFullYear(), endOfDesiredMonth.getMonth(), dayOfMonth);
      return _date;
    }
  }
  \<close>
\<close>

definition addMonths :: "LocalTZA \<Rightarrow> heap \<Rightarrow> ref \<Rightarrow> number \<Rightarrow> heap \<times> ref" where
  "addMonths tza h date amount =
     (case toDate h date of (h1, d) \<Rightarrow>
        if isNaN amount then constructFrom h1 date NaN
        else if falsy amount then (h1, d)
        else
          let dayOfMonth = getDate tza (h1 ! d) in
          case constructFrom h1 date (getTime (h1 ! d)) of (h2, e) \<Rightarrow>
            let h3 = h2[e := setMonth tza (h2 ! e)
                               (num_add (num_add (getMonth tza (h2 ! d)) amount) (Finite 1))
                               (Finite 0)];
                daysInMonth = getDate tza (h3 ! e)
            in if num_ge dayOfMonth daysInMonth then (h3, e)
               else (h3[d := setFullYear tza (h3 ! d) (getFullYear tza (h3 ! e))
                                         (getMonth tza (h3 ! e)) dayOfMonth], d))"


text \<open>\<open>addYears(date, amount)\<close> is \<open>addMonths(date, amount * 12)\<close>.\<close>

definition addYears :: "LocalTZA \<Rightarrow> heap \<Rightarrow> ref \<Rightarrow> number \<Rightarrow> heap \<times> ref" where
  "addYears tza h date amount = addMonths tza h date (num_mul amount (Finite 12))"

text \<open>
  \<open>isAfter(date, dateToCompare)\<close> is \<open>+toDate(date) > +toDate(dateToCompare)\<close> and
  \<open>isBefore\<close> is the same with \<open><\<close>; both compare the time values.
\<close>

definition isAfter :: "Date \<Rightarrow> Date \<Rightarrow> bool" where
  "isAfter date dateToCompare = num_gt (getTime date) (getTime dateToCompare)"

definition isBefore :: "Date \<Rightarrow> Date \<Rightarrow> bool" where
  "isBefore date dateToCompare = num_lt (getTime date) (getTime dateToCompare)"

text \<open>
  \<open>startOfDay(date)\<close> clones the date and calls \<open>setHours(0, 0, 0, 0)\<close> on the clone;
  \<open>isSameDay(a, b)\<close> is \<open>+startOfDay(a) === +startOfDay(b)\<close>. The module imports it
  under the name \<open>isSameDayFn\<close>.
\<close>

definition startOfDay :: "LocalTZA \<Rightarrow> Date \<Rightarrow> Date" where
  "startOfDay tza date = setHours tza date 0 0 0 0"

definition isSameDayFn :: "LocalTZA \<Rightarrow> Date \<Rightarrow> Date \<Rightarrow> bool" where
  "isSameDayFn tza laterDate earlierDate =
     num_eq (getTime (startOfDay tza laterDate)) (getTime (startOfDay tza earlierDate))"

text \<open>\<open>getYear(date)\<close> is \<open>toDate(date).getFullYear()\<close>.\<close>

definition getYear :: "LocalTZA \<Rightarrow> Date \<Rightarrow> number" where
  "getYear tza date = getFullYear tza date"

section \<open>The module dateUtils\<close>

text \<open>
  The constants \<open>DATE_UNIT_TYPES\<close> come from \<open>./constants\<close>; the four strings are a
  parameter of \<open>add\<close>.
\<close>

record DATE_UNIT_TYPES =
  DAYS :: string
  WEEKS :: string
  MONTHS :: string
  YEARS :: string

text \<open>
  The arguments of \<open>add\<close> are checked at run time (\<open>instanceof Date\<close>,
  \<open>typeof amount\<close>), so they are values of any kind: a reference to a \<open>Date\<close> object, a
  number or a string.
\<close>

datatype jsvalue = Ref ref | Num number | Str string

datatype error = Error string

text \<open>\<open>getCurrentYear\<close> reads the clock: \<open>now\<close> is the time value of \<open>new Date()\<close>.\<close>

definition getCurrentYear :: "LocalTZA \<Rightarrow> int \<Rightarrow> number" where
  "getCurrentYear tza now = getYear tza (Date (TimeClip (Finite now)))"

text \<open>
  \<open>add(date, amount, type = DATE_UNIT_TYPES.DAYS)\<close>: \<open>None\<close> is the omitted third
  argument. A reference is an instance of \<open>Date\<close> when it points into the store.
\<close>

definition add ::
  "LocalTZA \<Rightarrow> DATE_UNIT_TYPES \<Rightarrow> heap \<Rightarrow> jsvalue \<Rightarrow> jsvalue \<Rightarrow> string option
     \<Rightarrow> error + heap \<times> ref" where
  "add tza U h date amount type =
     (case date of
        Ref r \<Rightarrow>
          if \<not> r < length h \<or> isNaN (getTime (h ! r))
          then Inl (Error ''Invalid date provided'')
          else
            (case amount of
               Num n \<Rightarrow>
                 if isNaN n then Inl (Error ''Invalid amount provided'')
                 else
                   let ty = (case type of None \<Rightarrow> DAYS U | Some s \<Rightarrow> s)
                   in if ty = DAYS U then Inr (addDays tza h r n)
                      else if ty = WEEKS U then Inr (addWeeks tza h r n)
                      else if ty = MONTHS U then Inr (addMonths tza h r n)
                      else if ty = YEARS U then Inr (addYears tza h r n)
                      else Inr (addDays tza h r n)
             | _ \<Rightarrow> Inl (Error ''Invalid amount provided''))
      | _ \<Rightarrow> Inl (Error ''Invalid date provided''))"

text \<open>
  The local times that a call of \<open>add\<close> hands to the time zone, for a date whose local
  time is \<open>L\<close> and a whole amount \<open>n\<close>: the local time \<open>n\<close> days later for \<open>addDays\<close>; for
  \<open>addMonths\<close>, the last day of the desired month and the desired day, both at the time
  of day of \<open>L\<close>. With the amount 0 the date is only cloned. Lemmas \<open>addDays_lands\<close> and
  \<open>monthsLater_lands\<close> show that a valid result is the last of these local times, as read
  by the zone.
\<close>

definition daysAsked :: "int \<Rightarrow> int \<Rightarrow> int list" where
  "daysAsked L n = (if n = 0 then [] else [L + n * msPerDay])"



definition isWithinRange :: "Date \<Rightarrow> Date \<Rightarrow> Date \<Rightarrow> error + bool" where
  "isWithinRange date from to =
     (if isAfter from to
      then Inl (Error ''Invalid range: from date must be before to date'')
      else Inr (isAfter date from \<and> isBefore date to))"

definition isDateBefore :: "Date \<Rightarrow> Date \<Rightarrow> bool" where
  "isDateBefore date compareDate = isBefore date compareDate"

definition isSameDay :: "LocalTZA \<Rightarrow> Date \<Rightarrow> Date \<Rightarrow> bool" where
  "isSameDay tza date compareDate = isSameDayFn tza date compareDate"

text \<open>
  A promise is modelled by its outcome: the value it resolves to, with the delay of the
  timer that resolves it in milliseconds, or the error it rejects with.
\<close>

datatype 'a Promise = Resolved nat 'a | Rejected error

definition getHolidays :: "LocalTZA \<Rightarrow> number \<Rightarrow> Date list Promise" where
  "getHolidays tza year =
     Resolved 100
       [new_Date tza year 0 1 0 0 0 0,
        new_Date tza year 11 25 0 0 0 0,
        new_Date tza year 11 31 0 0 0 0]"

definition isHoliday :: "LocalTZA \<Rightarrow> Date \<Rightarrow> bool Promise" where
  "isHoliday tza date =
     (case getHolidays tza (getFullYear tza date) of
        Resolved ms holidays \<Rightarrow>
          Resolved ms (list_ex (\<lambda>holiday. isSameDay tza date holiday) holidays)
      | Rejected e \<Rightarrow> Rejected e)"

text \<open>The two kinds of error of the specification, by the message the module throws.\<close>

definition InvalidInput :: "error \<Rightarrow> bool" where
  "InvalidInput e = (e = Error ''Invalid date provided'' \<or> e = Error ''Invalid amount provided'')"

definition InvalidRange :: "error \<Rightarrow> bool" where
  "InvalidRange e = (e = Error ''Invalid range: from date must be before to date'')"

section \<open>The cases of the test suite\<close>

text \<open>
  The cases of \<open>src/__tests__/dateUtils.test.ts\<close>, evaluated in the model with the time
  zone UTC (\<open>fixedOffset 0\<close>) and the unit strings \<open>days\<close>, \<open>weeks\<close>, \<open>months\<close>, \<open>years\<close>.
\<close>

lemma test_add_days_by_default:
  "new_Date (fixedOffset 0) (Finite 2026) 0 1 0 0 0 0 = Date (Finite 1767225600000)"
  "add (fixedOffset 0) \<lparr>DAYS = ''days'', WEEKS = ''weeks'', MONTHS = ''months'', YEARS = ''years''\<rparr>
       [Date (Finite 1767225600000)] (Ref 0) (Num (Finite 2)) None
     = Inr ([Date (Finite 1767225600000), Date (Finite 1767398400000)], 1)"
  "getFullYear (fixedOffset 0) (Date (Finite 1767398400000)) = Finite 2026"
  "getMonth (fixedOffset 0) (Date (Finite 1767398400000)) = Finite 0"
  "getDate (fixedOffset 0) (Date (Finite 1767398400000)) = Finite 3"
  by code_simp+

lemma test_add_with_unit:
  "\<exists>h. add (fixedOffset 0) \<lparr>DAYS = ''days'', WEEKS = ''weeks'', MONTHS = ''months'', YEARS = ''years''\<rparr>
       [Date (Finite 1767225600000)] (Ref 0) (Num (Finite 1)) (Some ''months'') = Inr (h, 1)
       \<and> getFullYear (fixedOffset 0) (h ! 1) = Finite 2026 \<and> getMonth (fixedOffset 0) (h ! 1) = Finite 1
       \<and> getDate (fixedOffset 0) (h ! 1) = Finite 1"
proof -
  have "add (fixedOffset 0) \<lparr>DAYS = ''days'', WEEKS = ''weeks'', MONTHS = ''months'', YEARS = ''years''\<rparr>
       [Date (Finite 1767225600000)] (Ref 0) (Num (Finite 1)) (Some ''months'')
     = Inr ([Date (Finite 1767225600000), Date (Finite 1769904000000),
             Date (Finite 1772236800000)], 1)"
    by code_simp
  moreover have "getFullYear (fixedOffset 0) (Date (Finite 1769904000000)) = Finite 2026"
    "getMonth (fixedOffset 0) (Date (Finite 1769904000000)) = Finite 1"
    "getDate (fixedOffset 0) (Date (Finite 1769904000000)) = Finite 1"
    by code_simp+
  ultimately show ?thesis by simp
qed

lemma test_add_negative_amount:
  "new_Date (fixedOffset 0) (Finite 2026) 0 10 0 0 0 0 = Date (Finite 1768003200000)"
  "add (fixedOffset 0) \<lparr>DAYS = ''days'', WEEKS = ''weeks'', MONTHS = ''months'', YEARS = ''years''\<rparr>
       [Date (Finite 1768003200000)] (Ref 0) (Num (Finite (- 3))) (Some ''days'')
     = Inr ([Date (Finite 1768003200000), Date (Finite 1767744000000)], 1)"
  "getFullYear (fixedOffset 0) (Date (Finite 1767744000000)) = Finite 2026"
  "getMonth (fixedOffset 0) (Date (Finite 1767744000000)) = Finite 0"
  "getDate (fixedOffset 0) (Date (Finite 1767744000000)) = Finite 7"
  by code_simp+

lemma test_add_invalid_date:
  "add (fixedOffset 0) \<lparr>DAYS = ''days'', WEEKS = ''weeks'', MONTHS = ''months'', YEARS = ''years''\<rparr>
       [] (Str ''2026-01-01'') (Num (Finite 1)) None = Inl (Error ''Invalid date provided'')"
  "add (fixedOffset 0) \<lparr>DAYS = ''days'', WEEKS = ''weeks'', MONTHS = ''months'', YEARS = ''years''\<rparr>
       [Date NaN] (Ref 0) (Num (Finite 1)) None = Inl (Error ''Invalid date provided'')"
  by code_simp+

lemma test_add_invalid_amount:
  "add (fixedOffset 0) \<lparr>DAYS = ''days'', WEEKS = ''weeks'', MONTHS = ''months'', YEARS = ''years''\<rparr>
       [Date (Finite 1767225600000)] (Ref 0) (Str ''1'') None
     = Inl (Error ''Invalid amount provided'')"
  "add (fixedOffset 0) \<lparr>DAYS = ''days'', WEEKS = ''weeks'', MONTHS = ''months'', YEARS = ''years''\<rparr>
       [Date (Finite 1767225600000)] (Ref 0) (Num NaN) None
     = Inl (Error ''Invalid amount provided'')"
  by code_simp+

lemma test_isWithinRange:
  "isWithinRange (new_Date (fixedOffset 0) (Finite 2026) 0 7 0 0 0 0) (new_Date (fixedOffset 0) (Finite 2026) 0 10 0 0 0 0)
     (new_Date (fixedOffset 0) (Finite 2026) 0 5 0 0 0 0)
     = Inl (Error ''Invalid range: from date must be before to date'')"
  "isWithinRange (new_Date (fixedOffset 0) (Finite 2026) 0 5 0 0 0 0) (new_Date (fixedOffset 0) (Finite 2026) 0 1 0 0 0 0)
     (new_Date (fixedOffset 0) (Finite 2026) 0 10 0 0 0 0) = Inr True"
  "isWithinRange (new_Date (fixedOffset 0) (Finite 2026) 0 1 0 0 0 0) (new_Date (fixedOffset 0) (Finite 2026) 0 1 0 0 0 0)
     (new_Date (fixedOffset 0) (Finite 2026) 0 10 0 0 0 0) = Inr False"
  "isWithinRange (new_Date (fixedOffset 0) (Finite 2026) 0 10 0 0 0 0) (new_Date (fixedOffset 0) (Finite 2026) 0 1 0 0 0 0)
     (new_Date (fixedOffset 0) (Finite 2026) 0 10 0 0 0 0) = Inr False"
  by code_simp+

lemma test_isDateBefore:
  "isDateBefore (new_Date (fixedOffset 0) (Finite 2026) 0 1 0 0 0 0) (new_Date (fixedOffset 0) (Finite 2026) 0 2 0 0 0 0)"
  "\<not> isDateBefore (new_Date (fixedOffset 0) (Finite 2026) 0 3 0 0 0 0) (new_Date (fixedOffset 0) (Finite 2026) 0 2 0 0 0 0)"
  by code_simp+

lemma test_isSameDay:
  "isSameDay (fixedOffset 0) (new_Date (fixedOffset 0) (Finite 2026) 0 1 8 0 0 0) (new_Date (fixedOffset 0) (Finite 2026) 0 1 23 59 59 0)"
  "\<not> isSameDay (fixedOffset 0) (new_Date (fixedOffset 0) (Finite 2026) 0 1 0 0 0 0) (new_Date (fixedOffset 0) (Finite 2026) 0 2 0 0 0 0)"
  by code_simp+

lemma test_getHolidays:
  "getHolidays (fixedOffset 0) (Finite 2026) =
     Resolved 100 [new_Date (fixedOffset 0) (Finite 2026) 0 1 0 0 0 0, new_Date (fixedOffset 0) (Finite 2026) 11 25 0 0 0 0,
                   new_Date (fixedOffset 0) (Finite 2026) 11 31 0 0 0 0]"
  "getFullYear (fixedOffset 0) (new_Date (fixedOffset 0) (Finite 2026) 0 1 0 0 0 0) = Finite 2026"
  by code_simp+

lemma test_isHoliday:
  "isHoliday (fixedOffset 0) (new_Date (fixedOffset 0) (Finite 2026) 11 25 10 0 0 0) = Resolved 100 True"
  "isHoliday (fixedOffset 0) (new_Date (fixedOffset 0) (Finite 2026) 5 15 0 0 0 0) = Resolved 100 False"
  by code_simp+

lemma test_getCurrentYear:
  "getCurrentYear (fixedOffset 0) 1770033600000 = Finite 2026"
  by code_simp

section \<open>Calendar facts\<close>

subsection \<open>Years\<close>

lemma div_succ: 
  assumes k: "0 < k"
  shows "((a::int) + 1) div k = a div k + (if (a + 1) mod k = 0 then 1 else 0)"
proof -
  have e1: "k * (a div k) + a mod k = a" by simp
  have b: "0 \<le> a mod k" "a mod k < k" using k by simp_all
  show ?thesis
  proof (cases "a mod k = k - 1")
    case True
    have "k * (a div k + 1) = k * (a div k) + k" by (simp add: algebra_simps)
    then have "a + 1 = k * (a div k + 1) + 0" using e1 True by linarith
    then have "(a + 1) div k = a div k + 1 \<and> (a + 1) mod k = 0"
      using k int_div_pos_eq [of "a + 1" k "a div k + 1" 0] int_mod_pos_eq [of "a + 1" k "a div k + 1" 0] by simp
    then show ?thesis by simp
  next
    case False
    then have r: "a mod k + 1 < k" using b by linarith
    have "a + 1 = k * (a div k) + (a mod k + 1)" using e1 by linarith
    then have "(a + 1) div k = a div k \<and> (a + 1) mod k = a mod k + 1"
      using r b k int_div_pos_eq [of "a + 1" k "a div k" "a mod k + 1"] 
           int_mod_pos_eq [of "a + 1" k "a div k" "a mod k + 1"] by simp
    then show ?thesis using b by simp
  qed
qed

lemma mod_400_100: "(y::int) mod 400 = 0 \<Longrightarrow> y mod 100 = 0"
  using mod_mod_cancel [of 100 400 y] by simp

lemma mod_100_4: "(y::int) mod 100 = 0 \<Longrightarrow> y mod 4 = 0"
  using mod_mod_cancel [of 4 100 y] by simp

lemma mod_shift_400: "((y::int) - 1600) mod 400 = y mod 400"
  using mod_mult_self1 [of y "-4" 400] by simp

lemma mod_shift_100: "((y::int) - 1900) mod 100 = y mod 100"
  using mod_mult_self1 [of y "-19" 100] by simp

lemma mod_shift_4: "((y::int) - 1968) mod 4 = y mod 4"
  using mod_mult_self1 [of y "-492" 4] by simp

lemma DayFromYear_Suc: "DayFromYear (y + 1) = DayFromYear y + DaysInYear y"
proof -
  have a: "(y + 1 - 1969) div 4 = (y - 1969) div 4 + (if y mod 4 = 0 then 1 else 0)"
    using div_succ [of 4 "y - 1969"] mod_shift_4 [of y] by (simp add: algebra_simps)
  have b: "(y + 1 - 1901) div 100 = (y - 1901) div 100 + (if y mod 100 = 0 then 1 else 0)"
    using div_succ [of 100 "y - 1901"] mod_shift_100 [of y] by (simp add: algebra_simps)
  have c: "(y + 1 - 1601) div 400 = (y - 1601) div 400 + (if y mod 400 = 0 then 1 else 0)"
    using div_succ [of 400 "y - 1601"] mod_shift_400 [of y] by (simp add: algebra_simps)
  show ?thesis
    unfolding DayFromYear_def DaysInYear_def a b c
    using mod_400_100 [of y] mod_100_4 [of y] by auto
qed

lemma DaysInYear_bounds: "365 \<le> DaysInYear y" "DaysInYear y \<le> 366"
  by (simp_all add: DaysInYear_def)

lemma DaysInYear_cases: "DaysInYear y = 365 \<or> DaysInYear y = 366"
  by (simp add: DaysInYear_def)

lemma DayFromYear_less_Suc: "DayFromYear y < DayFromYear (y + 1)"
  using DaysInYear_bounds [of y] by (simp add: DayFromYear_Suc)

lemma DayFromYear_mono_nat: "DayFromYear y \<le> DayFromYear (y + int n)"
proof (induction n)
  case 0 then show ?case by simp
next
  case (Suc n)
  have "DayFromYear (y + int n) < DayFromYear (y + int n + 1)" by (rule DayFromYear_less_Suc)
  then show ?case using Suc by (simp add: algebra_simps)
qed

lemma DayFromYear_mono: "a \<le> b \<Longrightarrow> DayFromYear a \<le> DayFromYear b"
  using DayFromYear_mono_nat [of a "nat (b - a)"] by simp

lemma div_bounds: "0 < k \<Longrightarrow> k * ((a::int) div k) \<le> a \<and> a < k * (a div k) + k"
  by (metis pos_mod_bound pos_mod_sign mult_div_mod_eq add_less_cancel_left le_add_same_cancel1)

lemma year_estimate:
  fixes d :: int
  defines "y \<equiv> 1970 + (400 * d) div 146097"
  shows "DayFromYear (y - 1) \<le> d" "d < DayFromYear (y + 2)"
proof -
  define q where "q = (400 * d) div 146097"
  have q: "146097 * q \<le> 400 * d" "400 * d < 146097 * q + 146097"
    using div_bounds [of 146097 "400 * d"] by (simp_all add: q_def)
  have y: "y = 1970 + q" by (simp add: y_def q_def)
  define a b c where "a = q div 4" and "b = (q + 68) div 100" and "c = (q + 368) div 400"
  have a: "4 * a \<le> q" "q < 4 * a + 4" using div_bounds [of 4 q] by (simp_all add: a_def)
  have b: "100 * b \<le> q + 68" "q + 68 < 100 * b + 100" using div_bounds [of 100 "q + 68"] by (simp_all add: b_def)
  have c: "400 * c \<le> q + 368" "q + 368 < 400 * c + 400" using div_bounds [of 400 "q + 368"] by (simp_all add: c_def)
  have "DayFromYear (y - 1) = 365 * (q - 1) + a - b + c"
    by (simp add: DayFromYear_def y algebra_simps a_def b_def c_def)
  then have "DayFromYear (y - 1) = 365 * q - 365 + a - b + c" by simp
  then show "DayFromYear (y - 1) \<le> d" using a b c q by linarith
  define a' b' c' where "a' = (q + 3) div 4" and "b' = (q + 71) div 100" and "c' = (q + 371) div 400"
  have a': "4 * a' \<le> q + 3" "q + 3 < 4 * a' + 4" using div_bounds [of 4 "q + 3"] by (simp_all add: a'_def)
  have b': "100 * b' \<le> q + 71" "q + 71 < 100 * b' + 100" using div_bounds [of 100 "q + 71"] by (simp_all add: b'_def)
  have c': "400 * c' \<le> q + 371" "q + 371 < 400 * c' + 400" using div_bounds [of 400 "q + 371"] by (simp_all add: c'_def)
  have "DayFromYear (y + 2) = 365 * (q + 2) + a' - b' + c'"
    by (simp add: DayFromYear_def y algebra_simps a'_def b'_def c'_def)
  then have "DayFromYear (y + 2) = 365 * q + 730 + a' - b' + c'" by simp
  then show "d < DayFromYear (y + 2)" using a' b' c' q by linarith
qed

lemma YearFromTime_bounds:
  "DayFromYear (YearFromTime t) \<le> Day t" "Day t < DayFromYear (YearFromTime t + 1)"
  using year_estimate [of "Day t"] by (auto simp: YearFromTime_def Let_def)

lemma YearFromTime_unique:
  assumes "DayFromYear y \<le> Day t" "Day t < DayFromYear (y + 1)"
  shows "YearFromTime t = y"
proof (rule ccontr)
  assume "YearFromTime t \<noteq> y"
  then consider "YearFromTime t + 1 \<le> y" | "y + 1 \<le> YearFromTime t" by linarith
  then show False
  proof cases
    case 1
    then show False using DayFromYear_mono [OF 1] YearFromTime_bounds [of t] assms by linarith
  next
    case 2
    then show False using DayFromYear_mono [OF 2] YearFromTime_bounds [of t] assms by linarith
  qed
qed

text \<open>The year of the standard: the largest \<open>y\<close> with \<open>TimeFromYear y \<le> t\<close>.\<close>

lemma YearFromTime_greatest:
  "TimeFromYear (YearFromTime t) \<le> t \<and> (\<forall>y. TimeFromYear y \<le> t \<longrightarrow> y \<le> YearFromTime t)"
proof -
  have d: "msPerDay * Day t \<le> t" "t < msPerDay * Day t + msPerDay"
    using div_bounds [of msPerDay t] by (simp_all add: Day_def msPerDay_def)
  have "msPerDay * DayFromYear (YearFromTime t) \<le> msPerDay * Day t"
    using YearFromTime_bounds(1) [of t] by (simp add: msPerDay_def)
  then have 1: "TimeFromYear (YearFromTime t) \<le> t" using d unfolding TimeFromYear_def by linarith
  have 2: "y \<le> YearFromTime t" if "TimeFromYear y \<le> t" for y
  proof (rule ccontr)
    assume "\<not> y \<le> YearFromTime t"
    then have "YearFromTime t + 1 \<le> y" by simp
    then have "DayFromYear (YearFromTime t + 1) \<le> DayFromYear y" by (rule DayFromYear_mono)
    then have "Day t + 1 \<le> DayFromYear y" using YearFromTime_bounds(2) [of t] by linarith
    then have "msPerDay * (Day t + 1) \<le> msPerDay * DayFromYear y" by (simp add: msPerDay_def)
    moreover have "msPerDay * (Day t + 1) = msPerDay * Day t + msPerDay" by (simp add: algebra_simps)
    ultimately show False using that d unfolding TimeFromYear_def by linarith
  qed
  show ?thesis using 1 2 by blast
qed

subsection \<open>Days\<close>


lemma TimeWithinDay_MakeDate: "0 \<le> w \<Longrightarrow> w < msPerDay \<Longrightarrow> TimeWithinDay (d * msPerDay + w) = w"
  unfolding TimeWithinDay_def msPerDay_def
  using int_mod_pos_eq [of "d * 86400000 + w" 86400000 d w] by (simp add: mult.commute)


lemma Day_TimeWithinDay: "Day t * msPerDay + TimeWithinDay t = t"
  by (simp add: Day_def TimeWithinDay_def)

subsection \<open>Months\<close>


lemma month_cases: 
  assumes "0 \<le> (mn::int)" "mn \<le> 11"
  obtains "mn = 0" | "mn = 1" | "mn = 2" | "mn = 3" | "mn = 4" | "mn = 5" 
        | "mn = 6" | "mn = 7" | "mn = 8" | "mn = 9" | "mn = 10" | "mn = 11"
proof -
  have "mn < 6 \<or> 6 \<le> mn" by linarith
  then show ?thesis
  proof
    assume "mn < 6"
    then have "mn = 0 \<or> mn = 1 \<or> mn = 2 \<or> mn = 3 \<or> mn = 4 \<or> mn = 5" using assms by linarith
    then show ?thesis using that by blast
  next
    assume "6 \<le> mn"
    then have "mn = 6 \<or> mn = 7 \<or> mn = 8 \<or> mn = 9 \<or> mn = 10 \<or> mn = 11" using assms by linarith
    then show ?thesis using that by blast
  qed
qed

lemma MonthFromTime_bounds: "0 \<le> MonthFromTime t" "MonthFromTime t \<le> 11"
  by (simp_all add: MonthFromTime_def Let_def)

lemma leap_flag: "(if DaysInYear ym = 366 then 1 else (0::int)) = DaysInYear ym - 365"
  using DaysInYear_cases [of ym] by auto

lemma MonthStart_year:
  assumes "0 \<le> mn" "mn \<le> 11" "1 \<le> dt" "dt \<le> DaysInMonth ym mn"
    and "Day t = MonthStart ym mn + dt - 1"
  shows "YearFromTime t = ym"
proof -
  have "DayFromYear ym \<le> Day t \<and> Day t < DayFromYear ym + DaysInYear ym"
    using assms(1,2)
  proof (cases rule: month_cases)
  qed (use assms(3-5) DaysInYear_cases [of ym] in \<open>auto simp: MonthStart_def DaysInMonth_def\<close>)
  then show ?thesis by (simp add: YearFromTime_unique DayFromYear_Suc)
qed


lemma MonthStart_fields:
  assumes "0 \<le> mn" "mn \<le> 11" "1 \<le> dt" "dt \<le> DaysInMonth ym mn"
    and "Day t = MonthStart ym mn + dt - 1"
  shows "YearFromTime t = ym" "MonthFromTime t = mn" "DateFromTime t = dt"
proof -
  show y: "YearFromTime t = ym" using assms by (rule MonthStart_year)
  have l: "InLeapYear t = (if DaysInYear ym = 366 then 1 else 0)" by (simp add: InLeapYear_def y)
  have d: "DayWithinYear t = MonthStart ym mn + dt - 1 - DayFromYear ym"
    by (simp add: DayWithinYear_def y assms(5))
  show m: "MonthFromTime t = mn"
    using assms(1,2)
  proof (cases rule: month_cases)
  qed (use assms(3,4) DaysInYear_cases [of ym] in
        \<open>auto simp: MonthFromTime_def l d MonthStart_def DaysInMonth_def\<close>)
  show "DateFromTime t = dt"
    using assms(1,2)
  proof (cases rule: month_cases)
  qed (use m in \<open>auto simp: DateFromTime_def l d MonthStart_def\<close>)
qed



lemma fields_MonthStart:
  "MonthStart (YearFromTime t) (MonthFromTime t) + DateFromTime t - 1 = Day t"
  using MonthFromTime_bounds [of t]
proof (cases rule: month_cases)
qed (simp_all add: MonthStart_def DateFromTime_def InLeapYear_def DayWithinYear_def)





subsection \<open>Setters on valid dates\<close>

lemma MakeDay_whole:
  "MakeDay (Finite y) (Finite m) (Finite dt) =
     Finite (MonthStart (y + m div 12) (m mod 12) + dt - 1)"
  by (simp add: Let_def)

lemma MakeDay_in_month:
  "0 \<le> m \<Longrightarrow> m \<le> 11 \<Longrightarrow> MakeDay (Finite y) (Finite m) (Finite dt) = Finite (MonthStart y m + dt - 1)"
  by (simp only: MakeDay_whole div_pos_pos_trivial mod_pos_pos_trivial) simp

lemma MakeDay_fields:
  "MakeDay (Finite (YearFromTime t)) (Finite (MonthFromTime t)) (Finite dt) =
     Finite (Day t + dt - DateFromTime t)"
  using MonthFromTime_bounds [of t] fields_MonthStart [of t]
  by (simp add: MakeDay_in_month del: MakeDay.simps)

lemma local_shift: "(Day L + k) * msPerDay + TimeWithinDay L = L + k * msPerDay"
  using Day_TimeWithinDay [of L] by (simp add: algebra_simps)


lemma TimeWithinDay_shift: "TimeWithinDay (L + k * msPerDay) = TimeWithinDay L"
  by (simp add: TimeWithinDay_def msPerDay_def)

lemma setDate_value:
  "setDate tza (Date (Finite t)) (Finite dt) =
     Date (TimeClip (UTC tza (Finite (LocalTime tza t
                                       + (dt - DateFromTime (LocalTime tza t)) * msPerDay))))"
proof -
  have "setDate tza (Date (Finite t)) (Finite dt) =
        Date (TimeClip (UTC tza (Finite ((Day (LocalTime tza t)
                                            + (dt - DateFromTime (LocalTime tza t))) * msPerDay
                                          + TimeWithinDay (LocalTime tza t)))))"
    by (simp only: setDate.simps Let_def MakeDay_fields MakeDate.simps add_diff_eq)
  then show ?thesis by (simp only: local_shift)
qed

lemma setHours_value:
  "setHours tza (Date (Finite t)) 0 0 0 0 =
     Date (TimeClip (UTC tza (Finite (Day (LocalTime tza t) * msPerDay))))"
  by (simp add: Let_def MakeTime_def)

subsection \<open>Local times as the zone reads them\<close>

lemma lands:
  assumes "Date (TimeClip (UTC tza (Finite A))) = Date (Finite t')"
  shows "t' = A - tza A False" and "\<bar>t'\<bar> \<le> maxTime"
  using assms by (auto split: if_splits)

lemma lands_day:
  assumes "Date (TimeClip (UTC tza (Finite A))) = Date (Finite t')" and "falls_on_its_day tza A"
  shows "Day (LocalTime tza t') = Day A"
  using assms(2) lands(1) [OF assms(1)] by (simp add: falls_on_its_day_def)

lemma LocalTime_fixedOffset: "LocalTime (fixedOffset c) t = t + c"
  by (simp add: LocalTime_def fixedOffset_def)

lemma UTC_fixedOffset: "UTC (fixedOffset c) (Finite L) = Finite (L - c)"
  by (simp add: fixedOffset_def)

lemma falls_on_its_day_fixedOffset: "falls_on_its_day (fixedOffset c) L"
  by (simp add: falls_on_its_day_def LocalTime_def fixedOffset_def)

section \<open>Range checks\<close>

lemma num_gt_Finite_iff:
  "wf_Date a \<Longrightarrow> wf_Date b \<Longrightarrow>
   num_gt (getTime a) (getTime b) \<longleftrightarrow> (\<exists>x y. getTime a = Finite x \<and> getTime b = Finite y \<and> y < x)"
  by (cases a rule: wf_Date.cases; cases b rule: wf_Date.cases) simp_all

lemma num_gt_irrefl: "\<not> num_gt a a"
  by (cases a) simp_all

lemma num_gt_asym: "num_gt a b \<Longrightarrow> \<not> num_gt b a"
  by (cases a; cases b) simp_all

text \<open>
  C2: when \<open>from\<close> is not after \<open>to\<close>, \<open>isWithinRange(date, from, to)\<close> is true
  exactly when \<open>date\<close> is strictly after \<open>from\<close> and strictly before \<open>to\<close>; on both
  boundaries it is false.
\<close>

theorem isWithinRange_exclusive:
  assumes "wf_Date date" and "wf_Date from" and "wf_Date to"
    and "\<not> (\<exists>f u. getTime from = Finite f \<and> getTime to = Finite u \<and> u < f)"
  shows "isWithinRange date from to =
           Inr (\<exists>t f u. getTime date = Finite t \<and> getTime from = Finite f \<and>
                        getTime to = Finite u \<and> f < t \<and> t < u)
         \<and> isWithinRange from from to = Inr False
         \<and> isWithinRange to from to = Inr False"
proof -
  have na: "\<not> isAfter from to"
    using assms(2-4) by (simp add: isAfter_def num_gt_Finite_iff)
  have "(isAfter date from \<and> isBefore date to) =
        (\<exists>t f u. getTime date = Finite t \<and> getTime from = Finite f \<and>
                        getTime to = Finite u \<and> f < t \<and> t < u)"
    using assms(1-3) by (auto simp: isAfter_def isBefore_def num_gt_Finite_iff)
  then have 1: "isWithinRange date from to =
           Inr (\<exists>t f u. getTime date = Finite t \<and> getTime from = Finite f \<and>
                        getTime to = Finite u \<and> f < t \<and> t < u)"
    using na by (simp add: isWithinRange_def)
  have 2: "isWithinRange from from to = Inr False"
    using na by (simp add: isWithinRange_def isAfter_def num_gt_irrefl)
  have 3: "isWithinRange to from to = Inr False"
    using na by (simp add: isWithinRange_def isBefore_def num_gt_irrefl)
  show ?thesis using 1 2 3 by blast
qed

theorem isWithinRange_exclusive_witness:
  "isWithinRange (Date (Finite 5)) (Date (Finite 1)) (Date (Finite 10)) = Inr True
   \<and> isWithinRange (Date (Finite 1)) (Date (Finite 1)) (Date (Finite 10)) = Inr False
   \<and> isWithinRange (Date (Finite 10)) (Date (Finite 1)) (Date (Finite 10)) = Inr False"
  using isWithinRange_exclusive [of "Date (Finite 5)" "Date (Finite 1)" "Date (Finite 10)"]
  by (simp add: maxTime_def)

text \<open>
  C3: \<open>isWithinRange\<close> fails exactly when \<open>from\<close> is chronologically after \<open>to\<close>, and
  then with the error \<open>InvalidRange\<close>.
\<close>

theorem isWithinRange_error:
  assumes "wf_Date from" and "wf_Date to"
  shows "((\<exists>e. isWithinRange date from to = Inl e) \<longleftrightarrow>
            (\<exists>f u. getTime from = Finite f \<and> getTime to = Finite u \<and> u < f))
         \<and> (\<forall>e. isWithinRange date from to = Inl e \<longrightarrow> InvalidRange e)"
  using assms by (auto simp: isWithinRange_def isAfter_def num_gt_Finite_iff InvalidRange_def)

theorem isWithinRange_error_witness:
  "isWithinRange (Date (Finite 7)) (Date (Finite 10)) (Date (Finite 5)) =
     Inl (Error ''Invalid range: from date must be before to date'')
   \<and> InvalidRange (Error ''Invalid range: from date must be before to date'')
   \<and> (\<exists>b. isWithinRange (Date (Finite 7)) (Date (Finite 5)) (Date (Finite 10)) = Inr b)"
proof -
  have w: "wf_Date (Date (Finite 10))" "wf_Date (Date (Finite 5))" by (simp_all add: maxTime_def)
  have "\<exists>e. isWithinRange (Date (Finite 7)) (Date (Finite 10)) (Date (Finite 5)) = Inl e"
    using isWithinRange_error [OF w, of "Date (Finite 7)"] by simp
  moreover have "\<not> (\<exists>e. isWithinRange (Date (Finite 7)) (Date (Finite 5)) (Date (Finite 10)) = Inl e)"
    using isWithinRange_error [OF w(2) w(1), of "Date (Finite 7)"] by simp
  ultimately show ?thesis
    using isWithinRange_error [OF w, of "Date (Finite 7)"]
    by (auto simp: InvalidRange_def isWithinRange_def isAfter_def isBefore_def)
qed

text \<open>
  C10: when \<open>from\<close> and \<open>to\<close> are the same instant, \<open>isWithinRange\<close> does not fail and
  returns false for every \<open>date\<close>.
\<close>

theorem isWithinRange_empty_range:
  "getTime to = getTime from \<Longrightarrow> isWithinRange date from to = Inr False"
  using num_gt_asym [of "getTime date" "getTime from"]
  by (auto simp: isWithinRange_def isAfter_def isBefore_def num_gt_irrefl)

theorem isWithinRange_empty_range_witness:
  "isWithinRange (Date (Finite 3)) (Date (Finite 3)) (Date (Finite 3)) = Inr False
   \<and> isWithinRange (Date (Finite 4)) (Date NaN) (Date NaN) = Inr False"
  using isWithinRange_empty_range [of "Date (Finite 3)" "Date (Finite 3)" "Date (Finite 3)"]
        isWithinRange_empty_range [of "Date NaN" "Date NaN" "Date (Finite 4)"]
  by simp

section \<open>The function add\<close>

subsection \<open>What a call leaves of the store\<close>

lemma Date_getTime: "Date (getTime d) = d"
  by (cases d) simp

lemma toDate_eq: "toDate h r = (h @ [h ! r], length h)"
  by (simp add: toDate_def alloc_def Date_getTime)

lemma constructFrom_eq: "constructFrom h r v = (h @ [Date (TimeClip v)], length h)"
  by (simp add: constructFrom_def alloc_def)

text \<open>
  Each function of date-fns returns a store whose first \<open>length h\<close> objects are those of
  \<open>h\<close>, and a reference to an object allocated after them.
\<close>

lemma addDays_frame:
  assumes "addDays tza h r n = (h', r')"
  shows "take (length h) h' = h \<and> length h \<le> r' \<and> r' < length h'"
  using assms
  by (auto simp: addDays_def toDate_eq constructFrom_eq split: if_splits)

lemma addMonths_frame:
  assumes "addMonths tza h r n = (h', r')"
  shows "take (length h) h' = h \<and> length h \<le> r' \<and> r' < length h'"
  using assms
  by (auto simp: addMonths_def toDate_eq constructFrom_eq Let_def split: if_splits)

lemma add_cases:
  assumes "add tza U h date amount type = Inr res"
  obtains r n where "date = Ref r" "r < length h" "\<not> isNaN (getTime (h ! r))"
    "amount = Num n" "\<not> isNaN n"
    "res = addDays tza h r n \<or> res = addWeeks tza h r n \<or> res = addMonths tza h r n
       \<or> res = addYears tza h r n"
  using assms
  by (auto simp: add_def Let_def split: jsvalue.splits if_splits)

lemma add_frame:
  assumes "add tza U h date amount type = Inr (h', r')"
  shows "take (length h) h' = h \<and> length h \<le> r' \<and> r' < length h'"
proof -
  from assms obtain r n where
    "(h', r') = addDays tza h r n \<or> (h', r') = addWeeks tza h r n
       \<or> (h', r') = addMonths tza h r n \<or> (h', r') = addYears tza h r n"
    by (rule add_cases)
  then show ?thesis
    using addDays_frame [of tza h r _ h' r'] addMonths_frame [of tza h r _ h' r']
    by (auto simp: addWeeks_def addYears_def)
qed

text \<open>
  C8: a successful call of \<open>add\<close> leaves every object of the store as it was, the input
  date among them, and returns a reference to an object allocated by the call.
\<close>

theorem add_does_not_mutate:
  assumes "add tza U h date amount type = Inr (h', r')"
  shows "\<exists>r. date = Ref r \<and> r < length h \<and> h' ! r = h ! r \<and> r' \<noteq> r
           \<and> take (length h) h' = h \<and> length h \<le> r' \<and> r' < length h'"
proof -
  from assms obtain r where r: "date = Ref r" "r < length h"
    by (rule add_cases)
  note f = add_frame [OF assms]
  have "take (length h) h' ! r = h' ! r" using r(2) by simp
  then have "h' ! r = h ! r" using f by metis
  then show ?thesis using r f by auto
qed

theorem add_does_not_mutate_witness:
  "\<exists>h'. add (fixedOffset 0) \<lparr>DAYS = ''days'', WEEKS = ''weeks'', MONTHS = ''months'', YEARS = ''years''\<rparr>
              [Date (Finite 1767225600000)] (Ref 0) (Num (Finite 2)) None = Inr (h', 1)
        \<and> h' ! 0 = Date (Finite 1767225600000) \<and> take 1 h' = [Date (Finite 1767225600000)]
        \<and> length h' = 2"
proof -
  let ?U = "\<lparr>DAYS = ''days'', WEEKS = ''weeks'', MONTHS = ''months'', YEARS = ''years''\<rparr>"
  have e: "add (fixedOffset 0) ?U [Date (Finite 1767225600000)] (Ref 0) (Num (Finite 2)) None
     = Inr ([Date (Finite 1767225600000), Date (Finite 1767398400000)], 1)"
    by code_simp
  show ?thesis using add_does_not_mutate [OF e] e by simp
qed

subsection \<open>Errors\<close>

text \<open>
  C1, as amended: \<open>add\<close> fails exactly when \<open>date\<close> is not a valid \<open>Date\<close> object or
  \<open>amount\<close> is not a number or is \<open>NaN\<close>, and every failure is an \<open>InvalidInput\<close> error.
  An infinite amount is not rejected.
\<close>

theorem add_InvalidInput:
  "((\<exists>e. add tza U h date amount type = Inl e) \<longleftrightarrow>
      \<not> (\<exists>r. date = Ref r \<and> r < length h \<and> \<not> isNaN (getTime (h ! r)))
      \<or> \<not> (\<exists>n. amount = Num n \<and> \<not> isNaN n))
   \<and> (\<forall>e. add tza U h date amount type = Inl e \<longrightarrow> InvalidInput e)"
  by (auto simp: add_def Let_def InvalidInput_def split: jsvalue.splits)

theorem add_InvalidInput_witness:
  "(\<exists>e. add (fixedOffset 0) \<lparr>DAYS = ''days'', WEEKS = ''weeks'', MONTHS = ''months'', YEARS = ''years''\<rparr>
          [Date NaN, Date (Finite 0)] (Ref 0) (Num (Finite 1)) None = Inl e \<and> InvalidInput e)
   \<and> (\<exists>e. add (fixedOffset 0) \<lparr>DAYS = ''days'', WEEKS = ''weeks'', MONTHS = ''months'', YEARS = ''years''\<rparr>
          [Date NaN, Date (Finite 0)] (Ref 1) (Num NaN) None = Inl e \<and> InvalidInput e)
   \<and> \<not> (\<exists>e. add (fixedOffset 0) \<lparr>DAYS = ''days'', WEEKS = ''weeks'', MONTHS = ''months'', YEARS = ''years''\<rparr>
          [Date NaN, Date (Finite 0)] (Ref 1) (Num (Finite 1)) None = Inl e)"
proof -
  let ?U = "\<lparr>DAYS = ''days'', WEEKS = ''weeks'', MONTHS = ''months'', YEARS = ''years''\<rparr>"
  let ?h = "[Date NaN, Date (Finite 0)]"
  have 1: "\<exists>e. add (fixedOffset 0) ?U ?h (Ref 0) (Num (Finite 1)) None = Inl e"
    using add_InvalidInput [of "fixedOffset 0" ?U ?h "Ref 0" "Num (Finite 1)" None] by simp
  have 2: "\<exists>e. add (fixedOffset 0) ?U ?h (Ref 1) (Num NaN) None = Inl e"
    using add_InvalidInput [of "fixedOffset 0" ?U ?h "Ref 1" "Num NaN" None] by simp
  have 3: "\<not> (\<exists>e. add (fixedOffset 0) ?U ?h (Ref 1) (Num (Finite 1)) None = Inl e)"
    using add_InvalidInput [of "fixedOffset 0" ?U ?h "Ref 1" "Num (Finite 1)" None] by simp
  show ?thesis
    using 1 2 3 add_InvalidInput [of "fixedOffset 0" ?U ?h "Ref 0" "Num (Finite 1)" None]
      add_InvalidInput [of "fixedOffset 0" ?U ?h "Ref 1" "Num NaN" None]
    by blast
qed

text \<open>
  C1 as stated fails: an infinite amount is not a finite number, and \<open>add\<close> returns an
  invalid date for it instead of failing.
\<close>

theorem add_Infinity_counterexample:
  "add (fixedOffset 0) \<lparr>DAYS = ''days'', WEEKS = ''weeks'', MONTHS = ''months'', YEARS = ''years''\<rparr>
       [Date (Finite 0)] (Ref 0) (Num Infinity) None
     = Inr ([Date (Finite 0), Date NaN], 1)"
  by code_simp

subsection \<open>Unknown units\<close>

text \<open>
  C6: with a unit that is none of the four constants, \<open>add\<close> returns what it returns for
  \<open>DAYS\<close>; so it does when the unit is omitted; and with a valid date and an amount that
  is not \<open>NaN\<close> it does not fail.
\<close>

theorem add_unknown_unit:
  assumes "ty \<noteq> DAYS U" and "ty \<noteq> WEEKS U" and "ty \<noteq> MONTHS U" and "ty \<noteq> YEARS U"
  shows "add tza U h date amount (Some ty) = add tza U h date amount (Some (DAYS U))
         \<and> add tza U h date amount None = add tza U h date amount (Some (DAYS U))
         \<and> (r < length h \<and> \<not> isNaN (getTime (h ! r)) \<and> \<not> isNaN n \<longrightarrow>
              add tza U h (Ref r) (Num n) (Some ty) = Inr (addDays tza h r n))"
  using assms by (auto simp: add_def Let_def split: jsvalue.splits)

theorem add_unknown_unit_witness:
  "add (fixedOffset 0) \<lparr>DAYS = ''days'', WEEKS = ''weeks'', MONTHS = ''months'', YEARS = ''years''\<rparr>
       [Date (Finite 0)] (Ref 0) (Num (Finite 3)) (Some ''hours'')
     = Inr ([Date (Finite 0), Date (Finite 259200000)], 1)
   \<and> add (fixedOffset 0) \<lparr>DAYS = ''days'', WEEKS = ''weeks'', MONTHS = ''months'', YEARS = ''years''\<rparr>
       [Date (Finite 0)] (Ref 0) (Num (Finite 3)) None
     = Inr ([Date (Finite 0), Date (Finite 259200000)], 1)"
proof -
  let ?U = "\<lparr>DAYS = ''days'', WEEKS = ''weeks'', MONTHS = ''months'', YEARS = ''years''\<rparr>"
  have e: "add (fixedOffset 0) ?U [Date (Finite 0)] (Ref 0) (Num (Finite 3)) (Some (DAYS ?U))
            = Inr ([Date (Finite 0), Date (Finite 259200000)], 1)"
    by code_simp
  show ?thesis
    using add_unknown_unit [of "''hours''" ?U "fixedOffset 0" "[Date (Finite 0)]" "Ref 0" "Num (Finite 3)" 0 "Finite 3"] e
    by simp
qed

section \<open>Calendar days\<close>

subsection \<open>The fields of a date depend on its local day only\<close>

lemma YearFromTime_Day: "Day s = Day t \<Longrightarrow> YearFromTime s = YearFromTime t"
  by (simp add: YearFromTime_def)

lemma MonthFromTime_Day: "Day s = Day t \<Longrightarrow> MonthFromTime s = MonthFromTime t"
  by (simp add: MonthFromTime_def DayWithinYear_def InLeapYear_def YearFromTime_Day [of s t])

lemma DateFromTime_Day: "Day s = Day t \<Longrightarrow> DateFromTime s = DateFromTime t"
  by (simp add: DateFromTime_def DayWithinYear_def InLeapYear_def YearFromTime_Day [of s t]
        MonthFromTime_Day [of s t])

lemma fields_Day:
  "YearFromTime s = YearFromTime t \<Longrightarrow> MonthFromTime s = MonthFromTime t \<Longrightarrow>
   DateFromTime s = DateFromTime t \<Longrightarrow> Day s = Day t"
  using fields_MonthStart [of s] fields_MonthStart [of t] by simp

lemma fields_iff_Day:
  "YearFromTime s = YearFromTime t \<and> MonthFromTime s = MonthFromTime t
     \<and> DateFromTime s = DateFromTime t \<longleftrightarrow> Day s = Day t"
  using YearFromTime_Day [of s t] MonthFromTime_Day [of s t] DateFromTime_Day [of s t]
    fields_Day [of s t]
  by blast

lemma Day_midnight: "Day (D * msPerDay) = D"
  by (simp add: Day_def msPerDay_def)

lemma valid_Date_iff: "valid_Date d \<longleftrightarrow> (\<exists>t. d = Date (Finite t) \<and> \<bar>t\<bar> \<le> maxTime)"
  by (cases d rule: wf_Date.cases) (simp_all add: valid_Date_def)

lemma startOfDay_value:
  "startOfDay tza (Date (Finite t)) =
     Date (TimeClip (UTC tza (Finite (Day (LocalTime tza t) * msPerDay))))"
  by (simp only: startOfDay_def setHours_value)

subsection \<open>isSameDay\<close>

lemma isSameDay_same_day:
  assumes "valid_Date (startOfDay tza (Date (Finite s)))"
    and "Day (LocalTime tza s) = Day (LocalTime tza t)"
  shows "isSameDay tza (Date (Finite s)) (Date (Finite t))"
proof -
  have e: "startOfDay tza (Date (Finite t)) = startOfDay tza (Date (Finite s))"
    by (simp only: startOfDay_value assms(2))
  from assms(1) obtain u where "startOfDay tza (Date (Finite s)) = Date (Finite u)"
    by (auto simp: valid_Date_iff)
  then show ?thesis by (simp add: isSameDay_def isSameDayFn_def e)
qed

lemma isSameDay_different_day:
  assumes "isSameDay tza (Date (Finite s)) (Date (Finite t))"
    and "falls_on_its_day tza (Day (LocalTime tza s) * msPerDay)"
    and "falls_on_its_day tza (Day (LocalTime tza t) * msPerDay)"
  shows "Day (LocalTime tza s) = Day (LocalTime tza t)"
proof -
  define x y where "x = TimeClip (UTC tza (Finite (Day (LocalTime tza s) * msPerDay)))"
    and "y = TimeClip (UTC tza (Finite (Day (LocalTime tza t) * msPerDay)))"
  have "num_eq x y"
    using assms(1) by (simp add: isSameDay_def isSameDayFn_def startOfDay_value x_def y_def
        del: TimeClip.simps UTC.simps)
  then obtain u where u: "x = Finite u" "y = Finite u"
    by (cases x; cases y) (auto split: if_splits simp: x_def y_def)
  have "Day (LocalTime tza u) = Day (Day (LocalTime tza s) * msPerDay)"
    using u(1) assms(2) by (intro lands_day) (simp_all add: x_def)
  moreover have "Day (LocalTime tza u) = Day (Day (LocalTime tza t) * msPerDay)"
    using u(2) assms(3) by (intro lands_day) (simp_all add: y_def)
  ultimately show ?thesis by (simp add: Day_midnight)
qed


lemma start_apart_falls:
  assumes "falls_on_its_day tza (Day (LocalTime tza s) * msPerDay)"
    and "falls_on_its_day tza (Day (LocalTime tza t) * msPerDay)"
  shows "start_apart tza (Date (Finite s)) (Date (Finite t))"
  using assms by (auto simp: falls_on_its_day_def Let_def Day_midnight)

lemma start_apart_fixedOffset: "start_apart (fixedOffset c) a b"
  by (cases "(fixedOffset c, a, b)" rule: start_apart.cases) (simp_all add: fixedOffset_def Let_def)

lemma getters_iff_Day:
  "getFullYear tza (Date (Finite s)) = getFullYear tza (Date (Finite t))
     \<and> getMonth tza (Date (Finite s)) = getMonth tza (Date (Finite t))
     \<and> getDate tza (Date (Finite s)) = getDate tza (Date (Finite t))
   \<longleftrightarrow> Day (LocalTime tza s) = Day (LocalTime tza t)"
  using fields_iff_Day [of "LocalTime tza s" "LocalTime tza t"] by simp




section \<open>Holidays\<close>

subsection \<open>Dates built from a year, a month and a day\<close>

lemma MonthStart_offset:
  "0 \<le> m \<Longrightarrow> m \<le> 11 \<Longrightarrow> DayFromYear y \<le> MonthStart y m \<and> MonthStart y m \<le> DayFromYear y + 335"
proof (cases rule: month_cases [of m])
qed (simp_all add: MonthStart_def)

lemma DayFromYear_lower: "DayFromYear (- 271820) = - 99999744"
  by (simp add: DayFromYear_def)

lemma DayFromYear_upper: "DayFromYear 275759 = 99999379"
  by (simp add: DayFromYear_def)

lemma midnight_in_range:
  assumes "- 271820 \<le> y" and "y \<le> 275759" and "0 \<le> m" and "m \<le> 11"
    and "1 \<le> dt" and "dt \<le> 31" and "\<bar>c\<bar> \<le> msPerDay"
  shows "\<bar>(MonthStart y m + dt - 1) * msPerDay - c\<bar> \<le> maxTime"
proof -
  have "- 99999744 \<le> DayFromYear y" "DayFromYear y \<le> 99999379"
    using DayFromYear_mono [OF assms(1)] DayFromYear_mono [OF assms(2)]
    by (simp_all add: DayFromYear_lower DayFromYear_upper)
  then have d: "- 99999744 \<le> MonthStart y m + dt - 1" "MonthStart y m + dt - 1 \<le> 99999744"
    using MonthStart_offset [OF assms(3,4), of y] assms(5,6) by linarith+
  have "- 99999744 * msPerDay \<le> (MonthStart y m + dt - 1) * msPerDay"
    "(MonthStart y m + dt - 1) * msPerDay \<le> 99999744 * msPerDay"
    using d by (simp_all add: msPerDay_def)
  then show ?thesis using assms(7) by (simp add: msPerDay_def maxTime_def)
qed

text \<open>
  With a fixed offset of at most a day, every day of the years -271820 to 275759 begins
  at a representable instant, on that day.
\<close>

lemma has_day_fixedOffset:
  assumes "- 271820 \<le> y" and "y \<le> 275759" and "0 \<le> m" and "m \<le> 11"
    and "1 \<le> dt" and "dt \<le> 31" and "\<bar>c\<bar> \<le> msPerDay"
  shows "has_day (fixedOffset c) (dayNumber y m dt)"
  using midnight_in_range [OF assms]
  by (simp add: has_day_def dayNumber_def falls_on_its_day_fixedOffset) (simp add: fixedOffset_def)

lemma new_Date_midnight:
  assumes "y < 0 \<or> 99 < y" and "0 \<le> m" and "m \<le> 11"
  shows "new_Date tza (Finite y) m dt 0 0 0 0 =
           Date (TimeClip (UTC tza (Finite (dayNumber y m dt * msPerDay))))"
proof -
  have "MakeDay (Finite y) (Finite m) (Finite dt) = Finite (dayNumber y m dt)"
    using assms(2,3) by (simp only: MakeDay_in_month dayNumber_def)
  then show ?thesis
    using assms(1) by (auto simp: MakeTime_def Let_def simp del: MakeDay.simps UTC.simps TimeClip.simps)
qed

lemma holiday_date:
  assumes "y < 0 \<or> 99 < y" and "0 \<le> m" and "m \<le> 11" and "1 \<le> dt" and "dt \<le> DaysInMonth y m"
    and "has_day tza (dayNumber y m dt)"
    and "d = new_Date tza (Finite y) m dt 0 0 0 0"
  shows "valid_Date d" "getFullYear tza d = Finite y" "getMonth tza d = Finite m"
    "getDate tza d = Finite dt" "startOfDay tza d = d"
proof -
  define A where "A = dayNumber y m dt * msPerDay"
  define u where "u = A - tza A False"
  have r: "\<bar>u\<bar> \<le> maxTime" and f: "falls_on_its_day tza A"
    using assms(6) by (simp_all add: has_day_def A_def u_def)
  have d: "d = Date (Finite u)"
    using new_Date_midnight [OF assms(1-3), of tza dt] r by (simp add: assms(7) A_def u_def)
  have D: "Day (LocalTime tza u) = MonthStart y m + dt - 1"
    using f by (simp add: falls_on_its_day_def u_def A_def Day_midnight dayNumber_def)
  show "valid_Date d" using r by (simp add: d valid_Date_def)
  show "getFullYear tza d = Finite y" "getMonth tza d = Finite m" "getDate tza d = Finite dt"
    using MonthStart_fields [OF assms(2-5) D] by (simp_all add: d)
  have "startOfDay tza d = Date (TimeClip (UTC tza (Finite A)))"
    by (simp only: d startOfDay_value D A_def dayNumber_def)
  then show "startOfDay tza d = d" using r by (simp add: d u_def)
qed

subsection \<open>getHolidays\<close>

lemma getHolidays_days:
  assumes "y < 0 \<or> 99 < y" and "has_day tza (dayNumber y 0 1)"
    and "has_day tza (dayNumber y 11 25)" and "has_day tza (dayNumber y 11 31)"
  shows "\<exists>d1 d2 d3. getHolidays tza (Finite y) = Resolved 100 [d1, d2, d3]
           \<and> valid_Date d1 \<and> valid_Date d2 \<and> valid_Date d3
           \<and> getFullYear tza d1 = Finite y \<and> getMonth tza d1 = Finite 0 \<and> getDate tza d1 = Finite 1
           \<and> getFullYear tza d2 = Finite y \<and> getMonth tza d2 = Finite 11 \<and> getDate tza d2 = Finite 25
           \<and> getFullYear tza d3 = Finite y \<and> getMonth tza d3 = Finite 11 \<and> getDate tza d3 = Finite 31"
proof -
  define d1 d2 d3 where "d1 = new_Date tza (Finite y) 0 1 0 0 0 0"
    and "d2 = new_Date tza (Finite y) 11 25 0 0 0 0"
    and "d3 = new_Date tza (Finite y) 11 31 0 0 0 0"
  have g: "getHolidays tza (Finite y) = Resolved 100 [d1, d2, d3]"
    by (simp only: getHolidays_def d1_def d2_def d3_def)
  have 1: "valid_Date d1 \<and> getFullYear tza d1 = Finite y \<and> getMonth tza d1 = Finite 0
            \<and> getDate tza d1 = Finite 1"
    using holiday_date [OF assms(1) _ _ _ _ assms(2) d1_def] by (simp add: DaysInMonth_def)
  have 2: "valid_Date d2 \<and> getFullYear tza d2 = Finite y \<and> getMonth tza d2 = Finite 11
            \<and> getDate tza d2 = Finite 25"
    using holiday_date [OF assms(1) _ _ _ _ assms(3) d2_def] by (simp add: DaysInMonth_def)
  have 3: "valid_Date d3 \<and> getFullYear tza d3 = Finite y \<and> getMonth tza d3 = Finite 11
            \<and> getDate tza d3 = Finite 31"
    using holiday_date [OF assms(1) _ _ _ _ assms(4) d3_def] by (simp add: DaysInMonth_def)
  show ?thesis using g 1 2 3 by blast
qed

text \<open>
  C4, as amended: for every integer year \<open>y\<close> that is not one of 0, ..., 99, in a time
  zone in which 1 January, 25 December and 31 December of \<open>y\<close> each begin at a
  representable instant of that same day, \<open>getHolidays(y)\<close> resolves, after its delay of
  100 ms, to three valid dates on 1 January, 25 December and 31 December of \<open>y\<close>, in that
  order.
\<close>

theorem getHolidays_three_dates:
  assumes "y < 0 \<or> 99 < y" and "has_day tza (dayNumber y 0 1)"
    and "has_day tza (dayNumber y 11 25)" and "has_day tza (dayNumber y 11 31)"
  shows "\<exists>d1 d2 d3. getHolidays tza (Finite y) = Resolved 100 [d1, d2, d3]
           \<and> valid_Date d1 \<and> valid_Date d2 \<and> valid_Date d3
           \<and> getFullYear tza d1 = Finite y \<and> getMonth tza d1 = Finite 0 \<and> getDate tza d1 = Finite 1
           \<and> getFullYear tza d2 = Finite y \<and> getMonth tza d2 = Finite 11 \<and> getDate tza d2 = Finite 25
           \<and> getFullYear tza d3 = Finite y \<and> getMonth tza d3 = Finite 11 \<and> getDate tza d3 = Finite 31"
  using assms by (rule getHolidays_days)

theorem getHolidays_three_dates_witness:
  "getHolidays (fixedOffset 0) (Finite 2026) =
     Resolved 100 [Date (Finite 1767225600000), Date (Finite 1798156800000),
                   Date (Finite 1798675200000)]
   \<and> getFullYear (fixedOffset 0) (Date (Finite 1767225600000)) = Finite 2026
   \<and> getMonth (fixedOffset 0) (Date (Finite 1798156800000)) = Finite 11
   \<and> getDate (fixedOffset 0) (Date (Finite 1798156800000)) = Finite 25
   \<and> getDate (fixedOffset 0) (Date (Finite 1798675200000)) = Finite 31"
proof -
  have e: "getHolidays (fixedOffset 0) (Finite 2026) =
     Resolved 100 [Date (Finite 1767225600000), Date (Finite 1798156800000),
                   Date (Finite 1798675200000)]"
    by code_simp
  have h: "(2026::int) < 0 \<or> 99 < (2026::int)" "has_day (fixedOffset 0) (dayNumber 2026 0 1)"
    "has_day (fixedOffset 0) (dayNumber 2026 11 25)" "has_day (fixedOffset 0) (dayNumber 2026 11 31)"
    by code_simp+
  show ?thesis using getHolidays_three_dates [OF h] e by auto
qed

text \<open>
  The days of the years -271820 to 275759 meet the condition in every zone with a fixed
  offset of at most a day.
\<close>

lemma getHolidays_fixedOffset:
  assumes "- 271820 \<le> y" and "y \<le> 275759" and "y < 0 \<or> 99 < y" and "\<bar>c\<bar> \<le> msPerDay"
  shows "\<exists>d1 d2 d3. getHolidays (fixedOffset c) (Finite y) = Resolved 100 [d1, d2, d3]
           \<and> valid_Date d1 \<and> valid_Date d2 \<and> valid_Date d3
           \<and> getFullYear (fixedOffset c) d1 = Finite y \<and> getMonth (fixedOffset c) d1 = Finite 0
           \<and> getDate (fixedOffset c) d1 = Finite 1
           \<and> getFullYear (fixedOffset c) d2 = Finite y \<and> getMonth (fixedOffset c) d2 = Finite 11
           \<and> getDate (fixedOffset c) d2 = Finite 25
           \<and> getFullYear (fixedOffset c) d3 = Finite y \<and> getMonth (fixedOffset c) d3 = Finite 11
           \<and> getDate (fixedOffset c) d3 = Finite 31"
proof (rule getHolidays_days [OF assms(3)])
  show "has_day (fixedOffset c) (dayNumber y 0 1)"
    using assms(1,2,4) by (intro has_day_fixedOffset) simp_all
  show "has_day (fixedOffset c) (dayNumber y 11 25)"
    using assms(1,2,4) by (intro has_day_fixedOffset) simp_all
  show "has_day (fixedOffset c) (dayNumber y 11 31)"
    using assms(1,2,4) by (intro has_day_fixedOffset) simp_all
qed

text \<open>
  C4 as stated fails for the years 0 to 99, which \<open>new Date\<close> reads as 1900 to 1999; for
  the years whose days lie beyond the last instant a \<open>Date\<close> can hold; and where the time
  zone has no such day: the zone below is 10 hours 40 minutes behind UTC until
  1994-12-31T10:40Z and 14 hours ahead from then on (Pacific/Kiritimati), so that its
  calendar goes from 30 December 1994 to 1 January 1995, and the third date of
  \<open>getHolidays(1994)\<close> is a 1 January 1995.
\<close>

theorem getHolidays_counterexample:
  "getHolidays (fixedOffset 0) (Finite 50) =
     Resolved 100 [Date (Finite (- 631152000000)), Date (Finite (- 600220800000)),
                   Date (Finite (- 599702400000))]
   \<and> getFullYear (fixedOffset 0) (Date (Finite (- 631152000000))) = Finite 1950
   \<and> getHolidays (fixedOffset 0) (Finite 275760) =
     Resolved 100 [Date (Finite 8639977881600000), Date NaN, Date NaN]
   \<and> getHolidays
       (\<lambda>t isUTC. if isUTC then (if t < 788870400000 then - 38400000 else 50400000)
                   else (if t < 788920800000 then - 38400000 else 50400000))
       (Finite 1994) =
     Resolved 100 [Date (Finite 757420800000), Date (Finite 788352000000),
                   Date (Finite 788870400000)]
   \<and> getFullYear
       (\<lambda>t isUTC. if isUTC then (if t < 788870400000 then - 38400000 else 50400000)
                   else (if t < 788920800000 then - 38400000 else 50400000))
       (Date (Finite 788870400000)) = Finite 1995
   \<and> getDate
       (\<lambda>t isUTC. if isUTC then (if t < 788870400000 then - 38400000 else 50400000)
                   else (if t < 788920800000 then - 38400000 else 50400000))
       (Date (Finite 788870400000)) = Finite 1"
  by code_simp


subsection \<open>isHoliday\<close>

text \<open>
  C5: \<open>isHoliday(d)\<close> resolves to true exactly when \<open>isSameDay\<close> holds between \<open>d\<close> and
  one of the dates that \<open>getHolidays\<close> resolves to for the local year of \<open>d\<close>. In a time
  zone with a fixed offset of at most a day, it is true for 10:00 on 25 December 2026
  and false for 15 June 2026.
\<close>

theorem isHoliday_iff:
  "(\<exists>hs. getHolidays tza (getFullYear tza d) = Resolved 100 hs
          \<and> isHoliday tza d = Resolved 100 (\<exists>h \<in> set hs. isSameDay tza d h))
   \<and> (\<bar>c\<bar> \<le> msPerDay \<longrightarrow>
          isHoliday (fixedOffset c) (new_Date (fixedOffset c) (Finite 2026) 11 25 10 0 0 0)
            = Resolved 100 True
        \<and> isHoliday (fixedOffset c) (new_Date (fixedOffset c) (Finite 2026) 5 15 0 0 0 0)
            = Resolved 100 False)"
proof -
  have 1: "\<exists>hs. getHolidays tza (getFullYear tza d) = Resolved 100 hs
          \<and> isHoliday tza d = Resolved 100 (\<exists>h \<in> set hs. isSameDay tza d h)"
    by (simp add: isHoliday_def getHolidays_def del: new_Date.simps)
  have 2: "isHoliday (fixedOffset c) (new_Date (fixedOffset c) (Finite 2026) 11 25 10 0 0 0)
            = Resolved 100 True
        \<and> isHoliday (fixedOffset c) (new_Date (fixedOffset c) (Finite 2026) 5 15 0 0 0 0)
            = Resolved 100 False"
    if t: "\<bar>c\<bar> \<le> msPerDay"
  proof -
    let ?z = "fixedOffset c"
    have a: "new_Date ?z (Finite 2026) 11 25 10 0 0 0 = Date (Finite (1798192800000 - c))"
      using t by (simp add: Let_def MonthStart_def DayFromYear_def DaysInYear_def MakeTime_def
          msPerDay_def msPerHour_def msPerMinute_def msPerSecond_def maxTime_def fixedOffset_def)
    have b: "new_Date ?z (Finite 2026) 5 15 0 0 0 0 = Date (Finite (1781481600000 - c))"
      using t by (simp add: Let_def MonthStart_def DayFromYear_def DaysInYear_def MakeTime_def
          msPerDay_def msPerHour_def msPerMinute_def msPerSecond_def maxTime_def fixedOffset_def)
    have ya: "getFullYear ?z (Date (Finite (1798192800000 - c))) = Finite 2026"
      by (simp add: LocalTime_fixedOffset YearFromTime_def Day_def msPerDay_def DayFromYear_def)
    have yb: "getFullYear ?z (Date (Finite (1781481600000 - c))) = Finite 2026"
      by (simp add: LocalTime_fixedOffset YearFromTime_def Day_def msPerDay_def DayFromYear_def)
    have h: "getHolidays ?z (Finite 2026) =
        Resolved 100 [Date (Finite (1767225600000 - c)), Date (Finite (1798156800000 - c)),
                      Date (Finite (1798675200000 - c))]"
      using t by (simp add: getHolidays_def Let_def MonthStart_def DayFromYear_def DaysInYear_def
          MakeTime_def msPerDay_def msPerHour_def msPerMinute_def msPerSecond_def maxTime_def
          fixedOffset_def)
    have sa: "startOfDay ?z (Date (Finite (x - c))) = Date (Finite (Day x * msPerDay - c))"
      if "\<bar>Day x * msPerDay - c\<bar> \<le> maxTime" for x
      using that by (simp add: startOfDay_value LocalTime_fixedOffset UTC_fixedOffset
          del: UTC.simps)
    have s: "startOfDay ?z (Date (Finite (1798192800000 - c))) = Date (Finite (1798156800000 - c))"
      "startOfDay ?z (Date (Finite (1781481600000 - c))) = Date (Finite (1781481600000 - c))"
      "startOfDay ?z (Date (Finite (1767225600000 - c))) = Date (Finite (1767225600000 - c))"
      "startOfDay ?z (Date (Finite (1798156800000 - c))) = Date (Finite (1798156800000 - c))"
      "startOfDay ?z (Date (Finite (1798675200000 - c))) = Date (Finite (1798675200000 - c))"
      using t by (simp_all add: sa Day_def msPerDay_def maxTime_def)
    have ia: "isHoliday ?z (Date (Finite (1798192800000 - c))) =
        Resolved 100 (list_ex (\<lambda>holiday. isSameDay ?z (Date (Finite (1798192800000 - c))) holiday)
          [Date (Finite (1767225600000 - c)), Date (Finite (1798156800000 - c)),
           Date (Finite (1798675200000 - c))])"
      by (simp only: isHoliday_def ya h Promise.case)
    have ib: "isHoliday ?z (Date (Finite (1781481600000 - c))) =
        Resolved 100 (list_ex (\<lambda>holiday. isSameDay ?z (Date (Finite (1781481600000 - c))) holiday)
          [Date (Finite (1767225600000 - c)), Date (Finite (1798156800000 - c)),
           Date (Finite (1798675200000 - c))])"
      by (simp only: isHoliday_def yb h Promise.case)
    show ?thesis
      unfolding a b ia ib by (simp add: isSameDay_def isSameDayFn_def s)
  qed
  show ?thesis using 1 2 by blast
qed

theorem isHoliday_iff_witness:
  "isHoliday (fixedOffset 0) (Date (Finite 1798192800000)) = Resolved 100 True
   \<and> isHoliday (fixedOffset 0) (Date (Finite 1781481600000)) = Resolved 100 False
   \<and> new_Date (fixedOffset 0) (Finite 2026) 11 25 10 0 0 0 = Date (Finite 1798192800000)
   \<and> new_Date (fixedOffset 0) (Finite 2026) 5 15 0 0 0 0 = Date (Finite 1781481600000)"
proof -
  have n: "new_Date (fixedOffset 0) (Finite 2026) 11 25 10 0 0 0 = Date (Finite 1798192800000)"
    "new_Date (fixedOffset 0) (Finite 2026) 5 15 0 0 0 0 = Date (Finite 1781481600000)"
    by code_simp+
  have "\<bar>0::int\<bar> \<le> msPerDay" by (simp add: msPerDay_def)
  then show ?thesis
    using isHoliday_iff [of "fixedOffset 0" "Date (Finite 0)" 0] n by (simp del: new_Date.simps)
qed

text \<open>
  In calendar terms: for a valid date of a year \<open>y\<close> outside 0, ..., 99 whose three
  holidays the time zone has, and whose own local day the zone reads as such,
  \<open>isHoliday\<close> tells whether the date is a 1 January, a 25 December or a 31 December.
\<close>

lemma num_eq_sym: "num_eq a b = num_eq b a"
  by (cases a; cases b) auto

lemma isSameDay_sym: "isSameDay tza a b = isSameDay tza b a"
  by (simp only: isSameDay_def isSameDayFn_def num_eq_sym [of "getTime (startOfDay tza a)"])

proposition isHoliday_calendar:
  assumes "\<bar>t\<bar> \<le> maxTime" and "getFullYear tza (Date (Finite t)) = Finite y"
    and "y < 0 \<or> 99 < y" and "has_day tza (dayNumber y 0 1)"
    and "has_day tza (dayNumber y 11 25)" and "has_day tza (dayNumber y 11 31)"
    and "falls_on_its_day tza (Day (LocalTime tza t) * msPerDay)"
  shows "isHoliday tza (Date (Finite t)) =
           Resolved 100 (getMonth tza (Date (Finite t)) = Finite 0
                           \<and> getDate tza (Date (Finite t)) = Finite 1
                         \<or> getMonth tza (Date (Finite t)) = Finite 11
                            \<and> (getDate tza (Date (Finite t)) = Finite 25
                                 \<or> getDate tza (Date (Finite t)) = Finite 31))"
proof -
  let ?d = "Date (Finite t)"
  define d1 d2 d3 where "d1 = new_Date tza (Finite y) 0 1 0 0 0 0"
    and "d2 = new_Date tza (Finite y) 11 25 0 0 0 0"
    and "d3 = new_Date tza (Finite y) 11 31 0 0 0 0"
  have h: "isHoliday tza ?d =
      Resolved 100 (isSameDay tza ?d d1 \<or> isSameDay tza ?d d2 \<or> isSameDay tza ?d d3)"
    by (simp only: isHoliday_def getHolidays_def assms(2) Promise.case list_ex_Nil_iff
          list_ex_Cons_iff d1_def d2_def d3_def simp_thms)
  have same: "isSameDay tza ?d x \<longleftrightarrow> getMonth tza ?d = Finite m \<and> getDate tza ?d = Finite dt"
    if "x = new_Date tza (Finite y) m dt 0 0 0 0" "0 \<le> m" "m \<le> 11" "1 \<le> dt"
      "dt \<le> DaysInMonth y m" "has_day tza (dayNumber y m dt)" for x m dt
  proof -
    note f = holiday_date [OF assms(3) that(2-6) that(1)]
    from f(1) obtain u where x: "x = Date (Finite u)" by (auto simp: valid_Date_iff)
    have D: "Day (LocalTime tza u) = dayNumber y m dt"
      using that(6) lands_day [of tza "dayNumber y m dt * msPerDay" u]
        new_Date_midnight [OF assms(3) that(2,3), of tza dt]
      by (simp add: has_day_def Day_midnight that(1) [symmetric] x del: new_Date.simps)
    have fx: "falls_on_its_day tza (Day (LocalTime tza u) * msPerDay)"
      using that(6) by (simp add: D has_day_def)
    have "isSameDay tza ?d x \<longleftrightarrow> Day (LocalTime tza u) = Day (LocalTime tza t)"
    proof
      assume "isSameDay tza ?d x"
      then have "isSameDay tza (Date (Finite u)) ?d" by (simp add: isSameDay_sym [of tza ?d] x)
      then show "Day (LocalTime tza u) = Day (LocalTime tza t)"
        using fx assms(7) by (rule isSameDay_different_day)
    next
      assume e: "Day (LocalTime tza u) = Day (LocalTime tza t)"
      have "valid_Date (startOfDay tza (Date (Finite u)))" using f(1,5) by (simp add: x)
      then have "isSameDay tza (Date (Finite u)) ?d" using e by (rule isSameDay_same_day)
      then show "isSameDay tza ?d x" by (simp add: isSameDay_sym [of tza ?d] x)
    qed
    also have "\<dots> \<longleftrightarrow> getFullYear tza x = getFullYear tza ?d \<and> getMonth tza x = getMonth tza ?d
        \<and> getDate tza x = getDate tza ?d"
      using getters_iff_Day [of tza u t] by (simp only: x)
    finally show ?thesis using f(2-4) assms(2) by auto
  qed
  have 1: "isSameDay tza ?d d1 \<longleftrightarrow> getMonth tza ?d = Finite 0 \<and> getDate tza ?d = Finite 1"
    using assms(4) by (intro same) (simp_all add: d1_def DaysInMonth_def)
  have 2: "isSameDay tza ?d d2 \<longleftrightarrow> getMonth tza ?d = Finite 11 \<and> getDate tza ?d = Finite 25"
    using assms(5) by (intro same) (simp_all add: d2_def DaysInMonth_def)
  have 3: "isSameDay tza ?d d3 \<longleftrightarrow> getMonth tza ?d = Finite 11 \<and> getDate tza ?d = Finite 31"
    using assms(6) by (intro same) (simp_all add: d3_def DaysInMonth_def)
  show ?thesis unfolding h 1 2 3 by auto
qed

section \<open>Adding and taking away\<close>

subsection \<open>Days and weeks\<close>

lemma addDays_finite:
  assumes "r < length h" and "h ! r = Date (Finite t)"
  shows "addDays tza h r (Finite k) =
           (h @ [if k = 0 then Date (Finite t)
                 else Date (TimeClip (UTC tza (Finite (LocalTime tza t + k * msPerDay))))],
            length h)"
proof (cases "k = 0")
  case True
  then show ?thesis using assms(2) by (simp add: addDays_def toDate_eq)
next
  case False
  have "setDate tza (Date (Finite t)) (Finite (DateFromTime (LocalTime tza t) + k)) =
          Date (TimeClip (UTC tza (Finite (LocalTime tza t + k * msPerDay))))"
    by (simp only: setDate_value add_diff_cancel_left')
  then show ?thesis
    using False assms(2)
    by (simp add: addDays_def toDate_eq del: setDate.simps TimeClip.simps UTC.simps)
qed

text \<open>A valid result of \<open>addDays\<close> is the local time asked for, as the zone reads it.\<close>

lemma addDays_lands:
  assumes "r < length h" and "h ! r = Date (Finite t)" and "k \<noteq> 0"
    and "addDays tza h r (Finite k) = (h1, r1)" and "h1 ! r1 = Date (Finite t1)"
  shows "t1 = last (daysAsked (LocalTime tza t) k) - tza (last (daysAsked (LocalTime tza t) k)) False"
    and "\<bar>t1\<bar> \<le> maxTime"
proof -
  have "Date (TimeClip (UTC tza (Finite (LocalTime tza t + k * msPerDay)))) = Date (Finite t1)"
    using addDays_finite [OF assms(1,2), of tza k] assms(3-5) by auto
  then show "t1 = last (daysAsked (LocalTime tza t) k) - tza (last (daysAsked (LocalTime tza t) k)) False"
    and "\<bar>t1\<bar> \<le> maxTime"
    using assms(3) by (simp_all add: lands daysAsked_def del: TimeClip.simps UTC.simps)
qed





subsection \<open>Months counted from January of year 0\<close>






subsection \<open>What addMonths asks of the time zone\<close>









subsection \<open>Months and years\<close>




subsection \<open>The round trip of add\<close>





text \<open>
  The month-length edge case that C7 sets aside: one month after 31 January 2026 is
  28 February, and one month before that is 28 January.
\<close>

lemma add_month_length_edge_case:
  "add (fixedOffset 0) \<lparr>DAYS = ''days'', WEEKS = ''weeks'', MONTHS = ''months'', YEARS = ''years''\<rparr>
       [Date (Finite 1769817600000)] (Ref 0) (Num (Finite 1)) (Some ''months'')
     = Inr ([Date (Finite 1769817600000), Date (Finite 1769817600000),
             Date (Finite 1772236800000)], 2)
   \<and> getDate (fixedOffset 0) (Date (Finite 1772236800000)) = Finite 28
   \<and> (case add (fixedOffset 0) \<lparr>DAYS = ''days'', WEEKS = ''weeks'', MONTHS = ''months'', YEARS = ''years''\<rparr>
       [Date (Finite 1769817600000), Date (Finite 1769817600000),
        Date (Finite 1772236800000)] (Ref 2) (Num (Finite (- 1))) (Some ''months'')
      of Inr (h2, r2) \<Rightarrow> getDate (fixedOffset 0) (h2 ! r2) = Finite 28
                      \<and> getMonth (fixedOffset 0) (h2 ! r2) = Finite 0
       | Inl e \<Rightarrow> False)"
  by code_simp

end
